theory Spec2Isabelle
  imports Main "HOL-Library.Word"
begin

section \<open>Block mapping of the Williams Ultimate File System (indirect.c)\<close>

text \<open>
  A shallow embedding of \<^verbatim>\<open>wufs_get_blk\<close>, \<^verbatim>\<open>retrieve_direct\<close>,
  \<^verbatim>\<open>retrieve_indirect\<close> and \<^verbatim>\<open>wufs_truncate\<close>.
  The inode, the buffer cache, the caller's buffer head and the collaborators' answers are
  fields of one record that every function takes and returns. A result \<open>None\<close> stands for
  undefined behaviour of the C program (an access outside a buffer, a division by zero).

  What the model leaves out: \<^verbatim>\<open>sb_getblk\<close> and \<^verbatim>\<open>sb_bread\<close> always return a buffer;
  taking and releasing \<^verbatim>\<open>pointers_lock\<close> and the buffer lock is not recorded, only the
  point where a write of another thread can show; \<^verbatim>\<open>inode->i_size\<close> is not negative and
  \<^verbatim>\<open>i_size + WUFS_BLOCKSIZE - 1\<close> does not overflow. Block numbers that the code holds in an
  \<^verbatim>\<open>int\<close> are integers; a pointer stored in a \<^verbatim>\<open>block_t\<close> keeps the low 16 bits.
\<close>

subsection \<open>Types and constants\<close>

text \<open>\<^verbatim>\<open>typedef __u16 block_t;\<close>\<close>

type_synonym block_t = "16 word"

text \<open>
  Modelled from the spec: the macro \<^verbatim>\<open>WUFS_INODE_BPTRS\<close> is declared in wufs.h, which is
  not part of the sources. The spec gives \<open>D = 8\<close>, and the comment at line 75 of indirect.c
  says that \<^verbatim>\<open>WUFS_INODE_BPTRS-1\<close> is 7.
\<close>

definition WUFS_INODE_BPTRS :: nat where
  "WUFS_INODE_BPTRS = 8"

text \<open>The two error codes that indirect.c returns (negated) from \<^verbatim>\<open>wufs_get_blk\<close>.\<close>

datatype error = EIO | ENOSPC

text \<open>
  A buffer head is either the caller's \<^verbatim>\<open>bh\<close> or the buffer that \<^verbatim>\<open>sb_getblk\<close> or
  \<^verbatim>\<open>sb_bread\<close> returned for a block number.
\<close>

datatype buf = Caller | Indir int

text \<open>The calls into the collaborators, in the order in which the code makes them.\<close>

datatype event =
    NewBlock int
  | FreeBlock int
  | SbGetblk int
  | SbBread int
  | SetBufferNew buf
  | MapBh buf int
  | Bforget buf
  | Brelse buf
  | MarkBufferDirtyInode buf
  | MarkInodeDirty
  | BlockTruncatePage

text \<open>
  A write of another thread to the shared pointers: to a slot of the inode's pointer table,
  or to an entry of a cached block.
\<close>

datatype env_action = SetPtr nat block_t | SetEntry nat nat block_t

record wufs =
  ini_data :: "block_t list"          \<comment> \<open>\<^verbatim>\<open>bptrs(inode)\<close>: the \<^verbatim>\<open>WUFS_INODE_BPTRS\<close> pointers\<close>
  i_size :: nat                       \<comment> \<open>\<^verbatim>\<open>inode->i_size\<close>\<close>
  i_mtime :: nat
  i_ctime :: nat
  sbi_max_fblks :: nat                \<comment> \<open>\<^verbatim>\<open>wufs_sb(inode->i_sb)->sbi_max_fblks\<close>\<close>
  b_data :: "nat \<Rightarrow> block_t list"      \<comment> \<open>the pointers that \<^verbatim>\<open>sb_bread\<close> finds in each block\<close>
  bh_new :: bool                      \<comment> \<open>the caller's \<^verbatim>\<open>bh\<close>: the BH_New bit\<close>
  bh_blocknr :: "int option"          \<comment> \<open>the caller's \<^verbatim>\<open>bh\<close>: the block \<^verbatim>\<open>map_bh\<close> gave it\<close>
  new_blocks :: "int list"            \<comment> \<open>the answers of \<^verbatim>\<open>wufs_new_block\<close> still to come\<close>
  current_time_sec :: nat             \<comment> \<open>\<^verbatim>\<open>CURRENT_TIME_SEC\<close>\<close>
  data_LBA_uninit :: int              \<comment> \<open>what the local \<^verbatim>\<open>data_LBA\<close> holds before it is assigned\<close>
  env :: "env_action list"            \<comment> \<open>the writes of other threads still to come\<close>
  calls :: "event list"               \<comment> \<open>the collaborator calls made so far\<close>

subsection \<open>Collaborators\<close>

definition log :: "event \<Rightarrow> wufs \<Rightarrow> wufs" where
  "log e s = s\<lparr>calls := calls s @ [e]\<rparr>"

text \<open>
  Modelled from the spec: \<^verbatim>\<open>wufs_new_block\<close> is not part of the sources. It allocates one
  physical block or signals exhaustion, which indirect.c reads as the answer 0. The answers
  are taken from \<open>new_blocks\<close>; when none is left the allocator is exhausted.
\<close>

definition wufs_new_block :: "wufs \<Rightarrow> int \<times> wufs" where
  "wufs_new_block s =
     (case new_blocks s of
        [] \<Rightarrow> (0, log (NewBlock 0) s)
      | n # ns \<Rightarrow> (n, log (NewBlock n) (s\<lparr>new_blocks := ns\<rparr>)))"

text \<open>
  Modelled from the spec: \<^verbatim>\<open>wufs_free_block\<close> is not part of the sources. It returns a
  block to the free pool; the model records the call.
\<close>

definition wufs_free_block :: "int \<Rightarrow> wufs \<Rightarrow> wufs" where
  "wufs_free_block n s = log (FreeBlock n) s"

text \<open>\<^verbatim>\<open>set_buffer_new(bh)\<close> and \<^verbatim>\<open>map_bh(bh, inode->i_sb, n)\<close> on the caller's buffer head.\<close>

definition set_buffer_new :: "wufs \<Rightarrow> wufs" where
  "set_buffer_new s = log (SetBufferNew Caller) (s\<lparr>bh_new := True\<rparr>)"

definition map_bh :: "int \<Rightarrow> wufs \<Rightarrow> wufs" where
  "map_bh n s = log (MapBh Caller n) (s\<lparr>bh_blocknr := Some n\<rparr>)"

text \<open>
  \<^verbatim>\<open>inode->i_mtime = inode->i_ctime = CURRENT_TIME_SEC; mark_inode_dirty(inode);\<close>
\<close>

definition touch_inode :: "wufs \<Rightarrow> wufs" where
  "touch_inode s =
     log MarkInodeDirty (s\<lparr>i_mtime := current_time_sec s, i_ctime := current_time_sec s\<rparr>)"

text \<open>
  The code re-reads a pointer after taking a lock because another thread may have written
  it since the unlocked read. \<open>interfere\<close> performs the next write of the schedule \<open>env\<close>,
  if there is one. It is applied where the code takes \<^verbatim>\<open>pointers_lock\<close> or the buffer
  lock for the re-check, and where it jumps back to a label after a lost race.
\<close>

fun apply_env :: "env_action \<Rightarrow> wufs \<Rightarrow> wufs" where
  "apply_env (SetPtr i v) s = s\<lparr>ini_data := (ini_data s)[i := v]\<rparr>"
| "apply_env (SetEntry b i v) s = s\<lparr>b_data := (b_data s)(b := (b_data s b)[i := v])\<rparr>"

definition interfere :: "wufs \<Rightarrow> wufs" where
  "interfere s =
     (case env s of
        [] \<Rightarrow> s
      | a # as \<Rightarrow> apply_env a (s\<lparr>env := as\<rparr>))"

lemma env_log [simp]: "env (log e s) = env s"
  by (simp add: log_def)

lemma env_wufs_new_block [simp]: "env (snd (wufs_new_block s)) = env s"
  by (simp add: wufs_new_block_def split: list.split)

lemma env_wufs_free_block [simp]: "env (wufs_free_block n s) = env s"
  by (simp add: wufs_free_block_def)

lemma ini_data_log [simp]: "ini_data (log e s) = ini_data s"
  by (simp add: log_def)

lemma b_data_log [simp]: "b_data (log e s) = b_data s"
  by (simp add: log_def)

lemma ini_data_wufs_new_block [simp]: "ini_data (snd (wufs_new_block s)) = ini_data s"
  by (simp add: wufs_new_block_def split: list.split)

lemma b_data_wufs_new_block [simp]: "b_data (snd (wufs_new_block s)) = b_data s"
  by (simp add: wufs_new_block_def split: list.split)

lemma env_apply_env [simp]: "env (apply_env a s) = env s"
  by (cases a) simp_all

lemma length_env_interfere: "length (env (interfere s)) \<le> length (env s)"
  by (simp add: interfere_def split: list.split)

lemma interfere_changes_ini_data:
  "ini_data (interfere s) \<noteq> ini_data s \<Longrightarrow> length (env (interfere s)) < length (env s)"
  by (auto simp: interfere_def split: list.splits)

lemma interfere_changes_b_data:
  "b_data (interfere s) \<noteq> b_data s \<Longrightarrow> length (env (interfere s)) < length (env s)"
  by (auto simp: interfere_def split: list.splits)

subsection \<open>retrieve_direct\<close>

text \<open>
  \<open>ptr\<close> is the index of the slot that the C pointer \<^verbatim>\<open>ptr\<close> addresses in the table.
  The jump \<^verbatim>\<open>goto start\<close> is the recursive call.
\<close>

function retrieve_direct :: "nat \<Rightarrow> bool \<Rightarrow> wufs \<Rightarrow> (error + unit) \<times> wufs" where
  "retrieve_direct ptr create s =
     (if ini_data s ! ptr = 0 then
        if \<not> create then (Inl EIO, s)
        else
          let n = fst (wufs_new_block s); s1 = snd (wufs_new_block s) in
          if n = 0 then (Inl ENOSPC, s1)
          else
            let s2 = interfere s1 in
            if ini_data s2 ! ptr \<noteq> 0 then
              retrieve_direct ptr create (interfere (wufs_free_block n s2))
            else
              let s3 = s2\<lparr>ini_data := (ini_data s2)[ptr := word_of_int n]\<rparr>;
                  s4 = touch_inode s3;
                  s5 = set_buffer_new s4
              in (Inr (), map_bh (uint (ini_data s5 ! ptr)) s5)
      else (Inr (), map_bh (uint (ini_data s ! ptr)) s))"
  by pat_completeness auto
termination
proof (relation "measure (\<lambda>(ptr, create, s). length (env s))", goal_cases)
  case 1
  show ?case by simp
next
  case (2 ptr create s n s1 s2)
  have "ini_data s2 \<noteq> ini_data s1"
    using 2 by auto
  then have "length (env s2) < length (env s1)"
    using 2 interfere_changes_ini_data [of s1] by simp
  moreover have "length (env (interfere (wufs_free_block n s2))) \<le> length (env s2)"
    using length_env_interfere [of "wufs_free_block n s2"] by simp
  ultimately show ?case
    using 2 by simp
qed

declare retrieve_direct.simps [simp del]

subsection \<open>retrieve_indirect\<close>

text \<open>
  The second half of \<^verbatim>\<open>retrieve_indirect\<close>, from the label \<^verbatim>\<open>start_indirection\<close>.
  \<open>b\<close> is the block that \<^verbatim>\<open>sb_bread\<close> was asked for, so \<^verbatim>\<open>indir_ptr\<close> is \<open>Indir (int b)\<close>
  and \<^verbatim>\<open>*blk_data\<close> is entry \<open>block\<close> of \<open>b_data s b\<close>. Reading past the end of the
  buffer is undefined behaviour. The jump \<^verbatim>\<open>goto start_indirection\<close> is the recursive call.
\<close>

function start_indirection :: "nat \<Rightarrow> nat \<Rightarrow> wufs \<Rightarrow> ((error + unit) \<times> wufs) option" where
  "start_indirection b block s =
     (if length (b_data s b) \<le> block then None
      else if b_data s b ! block = 0 then
        let data_LBA = fst (wufs_new_block s); s1 = snd (wufs_new_block s) in
        if data_LBA = 0 then Some (Inl ENOSPC, s1)
        else
          let s2 = interfere s1 in
          if b_data s2 b ! block \<noteq> 0 then
            start_indirection b block (interfere (wufs_free_block data_LBA s2))
          else
            let s3 = s2\<lparr>b_data := (b_data s2)(b := (b_data s2 b)[block := word_of_int data_LBA])\<rparr>;
                s4 = log (MarkBufferDirtyInode (Indir (int b))) s3;
                s5 = log (Brelse (Indir (int b))) s4
            in Some (Inr (), map_bh data_LBA (set_buffer_new s5))
      else
        let data_LBA = uint (b_data s b ! block)
        in Some (Inr (), map_bh data_LBA (set_buffer_new s)))"
  by pat_completeness auto
termination
proof (relation "measure (\<lambda>(b, block, s). length (env s))", goal_cases)
  case 1
  show ?case by simp
next
  case (2 b block s data_LBA s1 s2)
  have "b_data s2 \<noteq> b_data s1"
    using 2 by auto
  then have "length (env s2) < length (env s1)"
    using 2 interfere_changes_b_data [of s1] by simp
  moreover have "length (env (interfere (wufs_free_block data_LBA s2))) \<le> length (env s2)"
    using length_env_interfere [of "wufs_free_block data_LBA s2"] by simp
  ultimately show ?case
    using 2 by simp
qed

declare start_indirection.simps [simp del]

text \<open>
  \<^verbatim>\<open>indir_ptr = sb_bread(inode->i_sb, *ptr); blk_data = indir_ptr->b_data; blk_data += block;\<close>
  and then the code from \<^verbatim>\<open>start_indirection\<close> on.
\<close>

definition indirection :: "nat \<Rightarrow> nat \<Rightarrow> wufs \<Rightarrow> ((error + unit) \<times> wufs) option" where
  "indirection ptr block s =
     (let p = ini_data s ! ptr
      in start_indirection (unat p) block (log (SbBread (uint p)) s))"

text \<open>
  \<^verbatim>\<open>retrieve_indirect\<close> from the label \<^verbatim>\<open>start\<close>. The jump \<^verbatim>\<open>goto start\<close> is the
  recursive call. On that path the code frees \<^verbatim>\<open>data_LBA\<close>, which has not been assigned.
\<close>

function retrieve_indirect :: "nat \<Rightarrow> bool \<Rightarrow> nat \<Rightarrow> wufs \<Rightarrow> ((error + unit) \<times> wufs) option" where
  "retrieve_indirect ptr create block s =
     (if ini_data s ! ptr = 0 then
        if \<not> create then Some (Inl EIO, s)
        else
          let indirect_LBA = fst (wufs_new_block s); s1 = snd (wufs_new_block s) in
          if indirect_LBA = 0 then Some (Inl ENOSPC, s1)
          else
            let s2 = log (SbGetblk indirect_LBA) s1;
                s3 = log (SetBufferNew (Indir indirect_LBA)) s2;
                s4 = log (MapBh (Indir indirect_LBA) indirect_LBA) s3;
                s5 = interfere s4
            in
            if ini_data s5 ! ptr \<noteq> 0 then
              let s6 = log (Bforget (Indir indirect_LBA)) s5;
                  s7 = wufs_free_block indirect_LBA s6;
                  s8 = wufs_free_block (data_LBA_uninit s7) s7
              in retrieve_indirect ptr create block (interfere s8)
            else
              let s6 = s5\<lparr>ini_data := (ini_data s5)[ptr := word_of_int indirect_LBA]\<rparr>;
                  s7 = log (MarkBufferDirtyInode (Indir indirect_LBA)) s6;
                  s8 = log (Brelse (Indir indirect_LBA)) s7;
                  s9 = touch_inode s8
              in indirection ptr block s9
      else indirection ptr block s)"
  by pat_completeness auto
termination
proof (relation "measure (\<lambda>(ptr, create, block, s). length (env s))", goal_cases)
  case 1
  show ?case by simp
next
  case (2 ptr create block s indirect_LBA s1 s2 s3 s4 s5 s6 s7 s8)
  have "ini_data s5 \<noteq> ini_data s4"
    using 2 by auto
  then have "length (env s5) < length (env s4)"
    using 2 interfere_changes_ini_data [of s4] by simp
  moreover have "length (env (interfere s8)) \<le> length (env s8)"
    by (rule length_env_interfere)
  ultimately show ?case
    using 2 by simp
qed

declare retrieve_indirect.simps [simp del]

subsection \<open>wufs_get_blk\<close>

text \<open>
  \<^verbatim>\<open>block\<close> is a \<^verbatim>\<open>sector_t\<close>, an unsigned integer, so it is a \<open>nat\<close> and the test
  \<^verbatim>\<open>block < 0\<close> never holds.
\<close>

definition wufs_get_blk :: "wufs \<Rightarrow> nat \<Rightarrow> bool \<Rightarrow> ((error + unit) \<times> wufs) option" where
  "wufs_get_blk s block create =
     (if block < 0 \<or> block \<ge> sbi_max_fblks s then Some (Inl EIO, s)
      else if block \<ge> WUFS_INODE_BPTRS - 1 then
        retrieve_indirect (WUFS_INODE_BPTRS - 1) create (block - (WUFS_INODE_BPTRS - 1)) s
      else Some (retrieve_direct block create s))"

subsection \<open>wufs_truncate\<close>

text \<open>
  \<^verbatim>\<open>for (i = bcnt; i < WUFS_INODE_BPTRS-1; i++) { if (blk[i]) wufs_free_block(inode,blk[i]); blk[i] = 0; }\<close>
\<close>

function truncate_direct :: "nat \<Rightarrow> wufs \<Rightarrow> wufs" where
  "truncate_direct i s =
     (if i < WUFS_INODE_BPTRS - 1 then
        let s1 = (if ini_data s ! i \<noteq> 0 then wufs_free_block (uint (ini_data s ! i)) s else s)
        in truncate_direct (i + 1) (s1\<lparr>ini_data := (ini_data s1)[i := 0]\<rparr>)
      else s)"
  by pat_completeness auto
termination
  by (relation "measure (\<lambda>(i, s). WUFS_INODE_BPTRS - 1 - i)") auto

declare truncate_direct.simps [simp del]

text \<open>
  \<^verbatim>\<open>for (i = ...; i < WUFS_BLOCKSIZE / 2; i++) { if (blk_data[i]) wufs_free_block(inode,blk_data[i]); blk_data[i] = 0; }\<close>
  on the buffer of block \<open>b\<close>, with \<open>m\<close> for \<^verbatim>\<open>WUFS_BLOCKSIZE / 2\<close>. Both branches of
  \<^verbatim>\<open>wufs_truncate\<close> have this loop.
\<close>

function truncate_entries :: "nat \<Rightarrow> nat \<Rightarrow> nat \<Rightarrow> wufs \<Rightarrow> wufs" where
  "truncate_entries m b i s =
     (if i < m then
        let s1 = (if b_data s b ! i \<noteq> 0 then wufs_free_block (uint (b_data s b ! i)) s else s)
        in truncate_entries m b (i + 1) (s1\<lparr>b_data := (b_data s1)(b := (b_data s1 b)[i := 0])\<rparr>)
      else s)"
  by pat_completeness auto
termination
  by (relation "measure (\<lambda>(m, b, i, s). m - i)") auto

declare truncate_entries.simps [simp del]

text \<open>The assignment \<^verbatim>\<open>i = bcnt\<close> of a \<^verbatim>\<open>long\<close> to an \<^verbatim>\<open>int\<close> keeps the low 32 bits.\<close>

definition int_of_long :: "int \<Rightarrow> int" where
  "int_of_long n = sint (word_of_int n :: 32 word)"

text \<open>
  The macro \<^verbatim>\<open>WUFS_BLOCKSIZE\<close> is declared in wufs.h, which is not part of the sources; it is
  the parameter \<open>blocksize\<close>. In the first branch \<open>bcnt < 8\<close>, so \<^verbatim>\<open>i = bcnt\<close> loses nothing.
  In the second branch the loop starts at the \<^verbatim>\<open>int\<close> \<open>i\<close>; an access at a negative index
  or past the end of the buffer is undefined behaviour, and so is the division when the
  block size is 0.
\<close>

definition wufs_truncate :: "nat \<Rightarrow> wufs \<Rightarrow> wufs option" where
  "wufs_truncate blocksize s0 =
     (let s = log BlockTruncatePage s0;
          bcnt = (i_size s + blocksize - 1) div blocksize
      in
      if blocksize = 0 then None
      else if bcnt < WUFS_INODE_BPTRS then
        let s1 = truncate_direct bcnt s;
            indirect_LBA = uint (ini_data s1 ! (WUFS_INODE_BPTRS - 1))
        in
        if indirect_LBA \<noteq> 0 then
          let s2 = log (SbBread indirect_LBA) s1 in
          if length (b_data s2 (nat indirect_LBA)) < blocksize div 2 then None
          else
            let s3 = truncate_entries (blocksize div 2) (nat indirect_LBA) 0 s2;
                s4 = s3\<lparr>ini_data := (ini_data s3)[WUFS_INODE_BPTRS - 1 := 0]\<rparr>;
                s5 = wufs_free_block indirect_LBA s4;
                s6 = log (Bforget (Indir indirect_LBA)) s5
            in Some (touch_inode s6)
        else Some (touch_inode s1)
      else
        let bcnt' = bcnt - (WUFS_INODE_BPTRS - 1);
            indirect_LBA = uint (ini_data s ! (WUFS_INODE_BPTRS - 1));
            s2 = log (SbBread indirect_LBA) s;
            i = int_of_long (int bcnt')
        in
        if i < int (blocksize div 2)
           \<and> (i < 0 \<or> length (b_data s2 (nat indirect_LBA)) < blocksize div 2) then None
        else
          let s3 = truncate_entries (blocksize div 2) (nat indirect_LBA) (nat i) s2;
              s4 = log (MarkBufferDirtyInode (Indir indirect_LBA)) s3;
              s5 = log (Brelse (Indir indirect_LBA)) s4
          in Some (touch_inode s5))"

subsection \<open>Notation and an example inode\<close>

text \<open>The calls to \<^verbatim>\<open>wufs_free_block\<close> that a loop over the pointers \<open>xs\<close> makes.\<close>

abbreviation frees :: "block_t list \<Rightarrow> event list" where
  "frees xs \<equiv> map (\<lambda>x. FreeBlock (uint x)) (filter (\<lambda>x. x \<noteq> 0) xs)"

text \<open>
  An inode with no block allocated, on a file system with blocks of 8 bytes (four pointers
  per block) and at most 11 blocks per file. No block is left in the allocator, the clock
  shows 1, and no other thread writes.
\<close>

definition empty_inode :: wufs where
  "empty_inode =
     \<lparr>ini_data = [0, 0, 0, 0, 0, 0, 0, 0], i_size = 0, i_mtime = 0, i_ctime = 0,
      sbi_max_fblks = 11, b_data = (\<lambda>b. [0, 0, 0, 0]), bh_new = False, bh_blocknr = None,
      new_blocks = [], current_time_sec = 1, data_LBA_uninit = 99, env = [], calls = []\<rparr>"

section \<open>Lemmas\<close>

lemmas collaborator_defs =
  wufs_new_block_def wufs_free_block_def log_def set_buffer_new_def map_bh_def touch_inode_def

lemma apply_env_inode [simp]:
  "i_mtime (apply_env a s) = i_mtime s" "i_ctime (apply_env a s) = i_ctime s"
  "current_time_sec (apply_env a s) = current_time_sec s" "calls (apply_env a s) = calls s"
  by (cases a; simp)+

lemma interfere_inode [simp]:
  "i_mtime (interfere s) = i_mtime s" "i_ctime (interfere s) = i_ctime s"
  "current_time_sec (interfere s) = current_time_sec s" "calls (interfere s) = calls s"
  by (simp_all add: interfere_def split: list.splits)

subsection \<open>Where the error EIO comes from\<close>

lemma retrieve_direct_EIO:
  "retrieve_direct ptr create s = (Inl EIO, s') \<Longrightarrow> \<not> create \<and> ini_data s ! ptr = 0 \<and> s' = s"
proof (induction ptr create s rule: retrieve_direct.induct)
  case (1 ptr create s)
  note IH = "1.IH" [OF _ _ refl refl _ refl]
  show ?case
    using "1.prems" IH
    by (subst (asm) retrieve_direct.simps) (auto simp: Let_def split: if_splits)
qed

lemma start_indirection_not_EIO:
  "start_indirection b block s \<noteq> Some (Inl EIO, s')"
proof (induction b block s rule: start_indirection.induct)
  case (1 b block s)
  note IH = "1.IH" [OF _ _ refl refl _ refl]
  show ?case
    using IH
    by (subst start_indirection.simps) (auto simp: Let_def split: if_splits)
qed

lemma retrieve_indirect_EIO:
  "retrieve_indirect ptr create block s = Some (Inl EIO, s') \<Longrightarrow>
     \<not> create \<and> ini_data s ! ptr = 0 \<and> s' = s"
proof (induction ptr create block s rule: retrieve_indirect.induct)
  case (1 ptr create block s)
  note IH = "1.IH" [OF _ _ refl refl _ refl refl refl refl _ refl refl refl]
  show ?case
    using "1.prems" IH
    by (subst (asm) retrieve_indirect.simps)
       (auto simp: Let_def indirection_def start_indirection_not_EIO split: if_splits)
qed

subsection \<open>The second half of retrieve_indirect leaves the inode alone\<close>

lemma start_indirection_inode:
  "start_indirection b block s = Some (r, s') \<Longrightarrow>
     i_mtime s' = i_mtime s \<and> i_ctime s' = i_ctime s
     \<and> (\<exists>post. calls s' = calls s @ post \<and> MarkInodeDirty \<notin> set post)"
proof (induction b block s rule: start_indirection.induct)
  case (1 b block s)
  note IH = "1.IH" [OF _ _ refl refl _ refl]
  show ?case
    using "1.prems" IH
    by (subst (asm) start_indirection.simps)
       (auto simp: Let_def collaborator_defs split: if_splits list.splits)
qed

lemma truncate_direct_eq:
  "length (ini_data s) = WUFS_INODE_BPTRS \<Longrightarrow> i \<le> WUFS_INODE_BPTRS - 1 \<Longrightarrow>
   truncate_direct i s =
     s\<lparr>ini_data := take i (ini_data s) @ replicate (WUFS_INODE_BPTRS - 1 - i) 0
          @ drop (WUFS_INODE_BPTRS - 1) (ini_data s),
       calls := calls s @ frees (drop i (take (WUFS_INODE_BPTRS - 1) (ini_data s)))\<rparr>"
proof (induction i s rule: truncate_direct.induct)
  case (1 i s)
  show ?case
  proof (cases "i < WUFS_INODE_BPTRS - 1")
    case False
    then have "truncate_direct i s = s"
      by (simp add: truncate_direct.simps [of i s])
    moreover have "i = WUFS_INODE_BPTRS - 1"
      using False "1.prems" by simp
    ultimately show ?thesis
      using "1.prems" by simp
  next
    case True
    define s1 where "s1 = (if ini_data s ! i \<noteq> 0 then wufs_free_block (uint (ini_data s ! i)) s else s)"
    define s2 where "s2 = s1\<lparr>ini_data := (ini_data s1)[i := 0]\<rparr>"
    have step: "truncate_direct i s = truncate_direct (i + 1) s2"
      using True by (simp add: truncate_direct.simps [of i s] s1_def s2_def Let_def)
    have len: "length (ini_data s2) = WUFS_INODE_BPTRS"
      using "1.prems" by (simp add: s2_def s1_def wufs_free_block_def)
    have IH: "truncate_direct (i + 1) s2 =
       s2\<lparr>ini_data := take (i + 1) (ini_data s2) @ replicate (WUFS_INODE_BPTRS - 1 - (i + 1)) 0
          @ drop (WUFS_INODE_BPTRS - 1) (ini_data s2),
       calls := calls s2 @ frees (drop (i + 1) (take (WUFS_INODE_BPTRS - 1) (ini_data s2)))\<rparr>"
      using "1.IH" [OF True s1_def] len True by (simp add: s2_def)
    have i2: "ini_data s2 = (ini_data s)[i := 0]"
      by (simp add: s2_def s1_def wufs_free_block_def)
    have c2: "calls s2 = calls s @ frees [ini_data s ! i]"
      by (simp add: s2_def s1_def wufs_free_block_def log_def)
    have ilen: "i < length (ini_data s)"
      using True "1.prems" by simp
    have a: "take (i + 1) ((ini_data s)[i := 0]) = take i (ini_data s) @ [0]"
      using ilen by (simp add: take_Suc_conv_app_nth)
    have b: "replicate (WUFS_INODE_BPTRS - 1 - i) (0 :: block_t)
       = 0 # replicate (WUFS_INODE_BPTRS - 1 - (i + 1)) 0"
      using True by (cases "WUFS_INODE_BPTRS - 1 - i") simp_all
    have c: "drop (WUFS_INODE_BPTRS - 1) ((ini_data s)[i := 0]) = drop (WUFS_INODE_BPTRS - 1) (ini_data s)"
      using True by simp
    have d: "drop i (take (WUFS_INODE_BPTRS - 1) (ini_data s))
        = ini_data s ! i # drop (i + 1) (take (WUFS_INODE_BPTRS - 1) ((ini_data s)[i := 0]))"
      using True ilen "1.prems"
      by (simp add: Cons_nth_drop_Suc [symmetric] take_update_swap)
    show ?thesis
      unfolding step IH i2 c2 a b c d
      by (simp add: s2_def s1_def wufs_free_block_def log_def)
  qed
qed


lemma truncate_entries_eq:
  "m \<le> length (b_data s b) \<Longrightarrow> i \<le> m \<Longrightarrow>
   truncate_entries m b i s =
     s\<lparr>b_data := (b_data s)(b := take i (b_data s b) @ replicate (m - i) 0 @ drop m (b_data s b)),
       calls := calls s @ frees (drop i (take m (b_data s b)))\<rparr>"
proof (induction m b i s rule: truncate_entries.induct)
  case (1 m b i s)
  show ?case
  proof (cases "i < m")
    case False
    then have "truncate_entries m b i s = s"
      by (simp add: truncate_entries.simps [of m b i s])
    moreover have "i = m"
      using False "1.prems" by simp
    ultimately show ?thesis
      using "1.prems" by simp
  next
    case True
    define s1 where "s1 = (if b_data s b ! i \<noteq> 0 then wufs_free_block (uint (b_data s b ! i)) s else s)"
    define s2 where "s2 = s1\<lparr>b_data := (b_data s1)(b := (b_data s1 b)[i := 0])\<rparr>"
    have step: "truncate_entries m b i s = truncate_entries m b (i + 1) s2"
      using True by (simp add: truncate_entries.simps [of m b i s] s1_def s2_def Let_def)
    have len: "m \<le> length (b_data s2 b)"
      using "1.prems" by (simp add: s2_def s1_def wufs_free_block_def)
    have ip: "i + 1 \<le> m"
      using True by simp
    note IH = "1.IH" [OF True s1_def, folded s2_def, OF len ip]
    have i2: "b_data s2 = (b_data s)(b := (b_data s b)[i := 0])"
      by (simp add: s2_def s1_def wufs_free_block_def)
    have c2: "calls s2 = calls s @ frees [b_data s b ! i]"
      by (simp add: s2_def s1_def wufs_free_block_def log_def)
    have ilen: "i < length (b_data s b)"
      using True "1.prems" by simp
    have e1: "take (i + 1) ((b_data s b)[i := 0]) = take i (b_data s b) @ [0]"
      using ilen by (simp add: take_Suc_conv_app_nth)
    have e2: "replicate (m - i) (0 :: block_t) = 0 # replicate (m - (i + 1)) 0"
      using True by (cases "m - i") simp_all
    have e3: "drop m ((b_data s b)[i := 0]) = drop m (b_data s b)"
      using True by simp
    have e4: "drop i (take m (b_data s b))
        = b_data s b ! i # drop (i + 1) (take m ((b_data s b)[i := 0]))"
      using True ilen "1.prems"
      by (simp add: Cons_nth_drop_Suc [symmetric] take_update_swap)
    have bd: "(b_data s2)(b := take (i + 1) (b_data s2 b) @ replicate (m - (i + 1)) 0
            @ drop m (b_data s2 b))
        = (b_data s)(b := take i (b_data s b) @ replicate (m - i) 0 @ drop m (b_data s b))"
      unfolding i2 fun_upd_same fun_upd_upd e1 e2 e3 by simp
    have cd: "calls s2 @ frees (drop (i + 1) (take m (b_data s2 b)))
        = calls s @ frees (drop i (take m (b_data s b)))"
      unfolding i2 c2 fun_upd_same e4 by simp
    have rest: "s2\<lparr>b_data := f, calls := cs\<rparr> = s\<lparr>b_data := f, calls := cs\<rparr>" for f cs
      by (simp add: s2_def s1_def wufs_free_block_def log_def)
    show ?thesis
      unfolding step IH bd cd by (rule rest)
  qed
qed

lemma blocks_ceiling:
  fixes sz blocksize k :: nat
  assumes "0 < blocksize"
  shows "sz \<le> (sz + blocksize - 1) div blocksize * blocksize"
    and "sz \<le> k * blocksize \<Longrightarrow> (sz + blocksize - 1) div blocksize \<le> k"
proof -
  let ?n = "sz + blocksize - 1"
  have "?n mod blocksize < blocksize"
    using assms by simp
  moreover have "?n div blocksize * blocksize + ?n mod blocksize = ?n"
    by (rule div_mult_mod_eq)
  ultimately have "?n < ?n div blocksize * blocksize + blocksize"
    by linarith
  then show "sz \<le> (sz + blocksize - 1) div blocksize * blocksize"
    using assms by simp
next
  assume "sz \<le> k * blocksize"
  then have "sz + blocksize - 1 < (k + 1) * blocksize"
    using assms by simp
  then have "(sz + blocksize - 1) div blocksize < k + 1"
    using assms by (simp add: div_less_iff_less_mult)
  then show "(sz + blocksize - 1) div blocksize \<le> k"
    by simp
qed

lemma int_of_long_small: "0 \<le> n \<Longrightarrow> n < 2 ^ 31 \<Longrightarrow> int_of_long n = n"
  unfolding int_of_long_def
  by (simp add: sint_sbintrunc' signed_take_bit_int_eq_self)

lemma truncate_fits_no_indirect:
  assumes len: "length (ini_data s) = WUFS_INODE_BPTRS"
    and bs: "0 < blocksize"
    and bcnt: "bcnt = (i_size s + blocksize - 1) div blocksize" "bcnt < WUFS_INODE_BPTRS"
    and p: "ini_data s ! (WUFS_INODE_BPTRS - 1) = 0"
  shows "wufs_truncate blocksize s =
    Some (s\<lparr>ini_data := take bcnt (ini_data s) @ replicate (WUFS_INODE_BPTRS - bcnt) 0,
            i_mtime := current_time_sec s, i_ctime := current_time_sec s,
            calls := calls s @ [BlockTruncatePage]
              @ frees (drop bcnt (take (WUFS_INODE_BPTRS - 1) (ini_data s)))
              @ [MarkInodeDirty]\<rparr>)"
proof -
  let ?s = "log BlockTruncatePage s"
  have l: "length (ini_data ?s) = WUFS_INODE_BPTRS" "bcnt \<le> WUFS_INODE_BPTRS - 1"
    using len bcnt by simp_all
  have d: "drop (WUFS_INODE_BPTRS - 1) (ini_data s) = [0]"
    using len p Cons_nth_drop_Suc [of "WUFS_INODE_BPTRS - 1" "ini_data s"]
    by (simp add: WUFS_INODE_BPTRS_def)
  have r: "replicate (WUFS_INODE_BPTRS - 1 - bcnt) (0 :: block_t) @ [0]
      = replicate (WUFS_INODE_BPTRS - bcnt) 0"
    using bcnt(2) by (simp add: WUFS_INODE_BPTRS_def replicate_append_same Suc_diff_le flip: replicate_Suc)
  have dr: "replicate (WUFS_INODE_BPTRS - 1 - bcnt) 0 @ drop (WUFS_INODE_BPTRS - 1) (ini_data s)
      = replicate (WUFS_INODE_BPTRS - bcnt) 0"
    unfolding d by (rule r)
  have "is": "(i_size ?s + blocksize - 1) div blocksize = bcnt"
    using bcnt(1) by (simp add: log_def)
  have td: "truncate_direct bcnt ?s =
      ?s\<lparr>ini_data := take bcnt (ini_data s) @ replicate (WUFS_INODE_BPTRS - bcnt) 0,
         calls := calls ?s @ frees (drop bcnt (take (WUFS_INODE_BPTRS - 1) (ini_data s)))\<rparr>"
    unfolding truncate_direct_eq [OF l] ini_data_log dr ..
  have n: "(take bcnt (ini_data s) @ replicate (WUFS_INODE_BPTRS - bcnt) 0) ! (WUFS_INODE_BPTRS - 1)
      = (0 :: block_t)"
    using len bcnt(2) by (simp add: nth_append WUFS_INODE_BPTRS_def)
  show ?thesis
    unfolding wufs_truncate_def Let_def "is" td
    using bcnt(2) n bs
    by (simp add: touch_inode_def log_def)
qed


lemma truncate_entries_ini_data [simp]:
  "ini_data (truncate_entries m b i s) = ini_data s"
proof (induction m b i s rule: truncate_entries.induct)
  case (1 m b i s)
  show ?case
    using "1.IH" [OF _ refl]
    by (subst truncate_entries.simps) (simp add: Let_def wufs_free_block_def)
qed

lemma truncate_fits_with_indirect:
  assumes len: "length (ini_data s) = WUFS_INODE_BPTRS"
    and bs: "0 < blocksize"
    and bcnt: "bcnt = (i_size s + blocksize - 1) div blocksize" "bcnt < WUFS_INODE_BPTRS"
    and p: "ini_data s ! (WUFS_INODE_BPTRS - 1) = p" "p \<noteq> 0"
    and m: "length (b_data s (unat p)) = blocksize div 2"
  shows "wufs_truncate blocksize s =
    Some (s\<lparr>ini_data := take bcnt (ini_data s) @ replicate (WUFS_INODE_BPTRS - bcnt) 0,
            i_mtime := current_time_sec s, i_ctime := current_time_sec s,
            b_data := (b_data s)(unat p := replicate (blocksize div 2) 0),
            calls := calls s @ [BlockTruncatePage]
              @ frees (drop bcnt (take (WUFS_INODE_BPTRS - 1) (ini_data s)))
              @ [SbBread (uint p)] @ frees (b_data s (unat p))
              @ [FreeBlock (uint p), Bforget (Indir (uint p)), MarkInodeDirty]\<rparr>)"
proof -
  let ?s = "log BlockTruncatePage s"
  let ?xs = "take bcnt (ini_data s) @ replicate (WUFS_INODE_BPTRS - 1 - bcnt) 0 @ [p]"
  have l: "length (ini_data ?s) = WUFS_INODE_BPTRS" "bcnt \<le> WUFS_INODE_BPTRS - 1"
    using len bcnt by simp_all
  have d: "drop (WUFS_INODE_BPTRS - 1) (ini_data s) = [p]"
    using len p Cons_nth_drop_Suc [of "WUFS_INODE_BPTRS - 1" "ini_data s"]
    by (simp add: WUFS_INODE_BPTRS_def)
  have "is": "(i_size ?s + blocksize - 1) div blocksize = bcnt"
    using bcnt(1) by (simp add: log_def)
  have td: "truncate_direct bcnt ?s =
      ?s\<lparr>ini_data := ?xs,
         calls := calls ?s @ frees (drop bcnt (take (WUFS_INODE_BPTRS - 1) (ini_data s)))\<rparr>"
    unfolding truncate_direct_eq [OF l] ini_data_log d ..
  define s1 where "s1 = truncate_direct bcnt ?s"
  have n: "ini_data s1 ! (WUFS_INODE_BPTRS - 1) = p"
    unfolding s1_def td using len bcnt(2) by (simp add: nth_append WUFS_INODE_BPTRS_def)
  have u: "(ini_data s1)[WUFS_INODE_BPTRS - 1 := 0]
      = take bcnt (ini_data s) @ replicate (WUFS_INODE_BPTRS - bcnt) 0"
    unfolding s1_def td using len bcnt(2)
    by (simp add: list_update_append WUFS_INODE_BPTRS_def replicate_append_same Suc_diff_le
        flip: replicate_Suc)
  define s2 where "s2 = log (SbBread (uint p)) s1"
  have b2: "b_data s2 = b_data s"
    by (simp add: s2_def s1_def td)
  have m2: "blocksize div 2 \<le> length (b_data s2 (unat p))" "0 \<le> blocksize div 2"
    using m by (simp_all add: b2)
  have te: "truncate_entries (blocksize div 2) (unat p) 0 s2 =
      s2\<lparr>b_data := (b_data s)(unat p := replicate (blocksize div 2) 0),
         calls := calls s2 @ frees (b_data s (unat p))\<rparr>"
    unfolding truncate_entries_eq [OF m2] b2 using m by simp
  have pn: "uint p \<noteq> 0" "nat (uint p) = unat p"
    using p(2) by (simp_all add: uint_0_iff)
  have s1eq: "s1 = s\<lparr>ini_data := ?xs,
      calls := calls s @ [BlockTruncatePage]
        @ frees (drop bcnt (take (WUFS_INODE_BPTRS - 1) (ini_data s)))\<rparr>"
    unfolding s1_def td by (simp add: log_def)
  have s2eq: "s2 = s\<lparr>ini_data := ?xs,
      calls := calls s @ [BlockTruncatePage]
        @ frees (drop bcnt (take (WUFS_INODE_BPTRS - 1) (ini_data s))) @ [SbBread (uint p)]\<rparr>"
    by (simp add: s2_def s1eq log_def)
  have g: "\<not> length (b_data s2 (nat (uint p))) < blocksize div 2"
    using m by (simp add: b2)
  have "wufs_truncate blocksize s =
      Some (touch_inode (log (Bforget (Indir (uint p))) (wufs_free_block (uint p)
        ((truncate_entries (blocksize div 2) (unat p) 0 s2)
           \<lparr>ini_data := (ini_data s1)[WUFS_INODE_BPTRS - 1 := 0]\<rparr>))))"
    unfolding wufs_truncate_def Let_def "is" s1_def [symmetric] n s2_def [symmetric]
    using bcnt(2) pn(1) g bs
    by (simp add: s2_def)
  also have "\<dots> = Some (s\<lparr>ini_data := take bcnt (ini_data s) @ replicate (WUFS_INODE_BPTRS - bcnt) 0,
            i_mtime := current_time_sec s, i_ctime := current_time_sec s,
            b_data := (b_data s)(unat p := replicate (blocksize div 2) 0),
            calls := calls s @ [BlockTruncatePage]
              @ frees (drop bcnt (take (WUFS_INODE_BPTRS - 1) (ini_data s)))
              @ [SbBread (uint p)] @ frees (b_data s (unat p))
              @ [FreeBlock (uint p), Bforget (Indir (uint p)), MarkInodeDirty]\<rparr>)"
    unfolding te u
    by (simp add: touch_inode_def wufs_free_block_def log_def s2eq)
  finally show ?thesis .
qed

lemma truncate_entries_past: "m \<le> i \<Longrightarrow> truncate_entries m b i s = s"
  by (simp add: truncate_entries.simps [of m b i s])

lemma truncate_keeps_indirect:
  assumes bs: "0 < blocksize"
    and bcnt: "bcnt = (i_size s + blocksize - 1) div blocksize" "WUFS_INODE_BPTRS \<le> bcnt"
      "bcnt < 2 ^ 31"
    and p: "ini_data s ! (WUFS_INODE_BPTRS - 1) = p"
    and m: "length (b_data s (unat p)) = blocksize div 2"
    and k: "k = bcnt - (WUFS_INODE_BPTRS - 1)"
  shows "wufs_truncate blocksize s =
    Some (s\<lparr>i_mtime := current_time_sec s, i_ctime := current_time_sec s,
            b_data := (b_data s)(unat p :=
              take k (b_data s (unat p)) @ replicate (blocksize div 2 - k) 0),
            calls := calls s @ [BlockTruncatePage, SbBread (uint p)]
              @ frees (drop k (b_data s (unat p)))
              @ [MarkBufferDirtyInode (Indir (uint p)), Brelse (Indir (uint p)),
                 MarkInodeDirty]\<rparr>)"
proof -
  let ?s = "log BlockTruncatePage s"
  have "is": "(i_size ?s + blocksize - 1) div blocksize = bcnt"
    using bcnt(1) by (simp add: log_def)
  have i: "int_of_long (int (bcnt - (WUFS_INODE_BPTRS - 1))) = int k"
    using bcnt(3) k by (simp add: int_of_long_small)
  define s2 where "s2 = log (SbBread (uint p)) ?s"
  have b2: "b_data s2 = b_data s"
    by (simp add: s2_def)
  have te: "truncate_entries (blocksize div 2) (unat p) k s2 =
      s2\<lparr>b_data := (b_data s)(unat p :=
              take k (b_data s (unat p)) @ replicate (blocksize div 2 - k) 0),
         calls := calls s2 @ frees (drop k (b_data s (unat p)))\<rparr>"
  proof (cases "k \<le> blocksize div 2")
    case True
    have m2: "blocksize div 2 \<le> length (b_data s2 (unat p))"
      using m by (simp add: b2)
    show ?thesis
      unfolding truncate_entries_eq [OF m2 True] b2 using m by simp
  next
    case False
    then show ?thesis
      using m by (simp add: truncate_entries_past b2 [symmetric])
  qed
  have pn: "nat (uint p) = unat p"
    by simp
  have s2eq: "s2 = s\<lparr>calls := calls s @ [BlockTruncatePage, SbBread (uint p)]\<rparr>"
    by (simp add: s2_def log_def)
  have g: "\<not> length (b_data s2 (nat (uint p))) < blocksize div 2"
    using m by (simp add: b2)
  have "wufs_truncate blocksize s =
      Some (touch_inode (log (Brelse (Indir (uint p))) (log (MarkBufferDirtyInode (Indir (uint p)))
        (truncate_entries (blocksize div 2) (unat p) k s2))))"
    unfolding wufs_truncate_def Let_def "is" ini_data_log p i s2_def [symmetric]
    using bcnt(2) g bs
    by simp
  also have "\<dots> = Some (s\<lparr>i_mtime := current_time_sec s, i_ctime := current_time_sec s,
            b_data := (b_data s)(unat p :=
              take k (b_data s (unat p)) @ replicate (blocksize div 2 - k) 0),
            calls := calls s @ [BlockTruncatePage, SbBread (uint p)]
              @ frees (drop k (b_data s (unat p)))
              @ [MarkBufferDirtyInode (Indir (uint p)), Brelse (Indir (uint p)),
                 MarkInodeDirty]\<rparr>)"
    unfolding te
    by (simp add: touch_inode_def log_def s2eq)
  finally show ?thesis .
qed

section \<open>The claims\<close>

subsection \<open>C1: a hole is reported, not filled, when create is false\<close>

text \<open>
  Claim C1: for every in-range logical block that is a hole, \<^verbatim>\<open>wufs_get_blk\<close> with
  \<^verbatim>\<open>create = 0\<close> fails and allocates nothing, also for a block of the indirect range whose
  indirect block exists while its entry is still 0.

  The code does not do this for the indirect range. The second half of
  \<^verbatim>\<open>retrieve_indirect\<close> never looks at \<^verbatim>\<open>create\<close>: with the indirect block 20 in slot 7
  and all its entries 0, the call for block 7 with \<^verbatim>\<open>create = 0\<close> takes block 21 from the
  allocator, writes it into entry 0 and returns 0.
\<close>

theorem C1_hole_entry_allocated_without_create:
  "map_option (\<lambda>(r, s). (r, ini_data s, b_data s 20, bh_blocknr s, calls s))
     (wufs_get_blk (empty_inode\<lparr>ini_data := [0, 0, 0, 0, 0, 0, 0, 20], new_blocks := [21]\<rparr>)
        7 False)
   = Some (Inr (), [0, 0, 0, 0, 0, 0, 0, 20], [21, 0, 0, 0], Some 21,
       [SbBread 20, NewBlock 21, MarkBufferDirtyInode (Indir 20), Brelse (Indir 20),
        SetBufferNew Caller, MapBh Caller 21])"
  by code_simp

subsection \<open>C2: a lost race gives back the one candidate block\<close>

text \<open>
  Claim C2: an allocation attempt that finds its slot taken at the locked re-check frees
  exactly its own candidate block, with one call of \<^verbatim>\<open>wufs_free_block\<close>, and retries.

  The first half of \<^verbatim>\<open>retrieve_indirect\<close> makes two calls: one for the candidate
  \<^verbatim>\<open>indirect_LBA\<close> and one for \<^verbatim>\<open>data_LBA\<close>, a local that has not been assigned on that
  path. Here another thread writes 30 into slot 7 while this one holds the candidate 20;
  the local holds 99. The call frees 20 and 99, then allocates 21 for the entry.
\<close>

theorem C2_lost_race_frees_two_blocks:
  "map_option (\<lambda>(r, s). (r, ini_data s, calls s))
     (wufs_get_blk (empty_inode\<lparr>new_blocks := [20, 21], env := [SetPtr 7 30]\<rparr>) 7 True)
   = Some (Inr (), [0, 0, 0, 0, 0, 0, 0, 30],
       [NewBlock 20, SbGetblk 20, SetBufferNew (Indir 20), MapBh (Indir 20) 20,
        Bforget (Indir 20), FreeBlock 20, FreeBlock 99,
        SbBread 30, NewBlock 21, MarkBufferDirtyInode (Indir 30), Brelse (Indir 30),
        SetBufferNew Caller, MapBh Caller 21])"
  by code_simp

subsection \<open>C3: a new indirect block starts as an array of zeros\<close>

text \<open>
  Claim C3: on the first allocation in the indirect range the candidate indirect block is
  filled with zeros before its number is written into the indirect slot, so every entry of
  a new indirect block reads as 0.

  The code takes the buffer of the new block with \<^verbatim>\<open>sb_getblk\<close>, reads its data pointer
  into \<^verbatim>\<open>blk_data\<close> and never writes through it. Block 20 holds the pointers 5, 0, 6, 0 from
  an earlier use; after the call for block 7 it still does, and the file's block 7 is
  mapped to the stale pointer 5 without any allocation of a data block.
\<close>

theorem C3_fresh_indirect_block_not_zeroed:
  "map_option (\<lambda>(r, s). (r, ini_data s, b_data s 20, bh_blocknr s, calls s))
     (wufs_get_blk
        (empty_inode\<lparr>new_blocks := [20], b_data := (b_data empty_inode)(20 := [5, 0, 6, 0])\<rparr>)
        7 True)
   = Some (Inr (), [0, 0, 0, 0, 0, 0, 0, 20], [5, 0, 6, 0], Some 5,
       [NewBlock 20, SbGetblk 20, SetBufferNew (Indir 20), MapBh (Indir 20) 20,
        MarkBufferDirtyInode (Indir 20), Brelse (Indir 20), MarkInodeDirty,
        SbBread 20, SetBufferNew Caller, MapBh Caller 5])"
  by code_simp

subsection \<open>C4: what truncation frees\<close>

text \<open>
  Claim C4: \<^verbatim>\<open>wufs_truncate\<close>, with \<open>bcnt\<close> the number of blocks that the new size needs
  (the size divided by the block size, rounded up), frees and zeroes every non-zero direct
  slot with index in \<open>[bcnt, D - 1)\<close>. When \<open>bcnt \<le> D - 1\<close> and the indirect slot is not 0,
  it frees every non-zero entry of the indirect block, zeroes the whole array, frees the
  indirect block itself and zeroes the indirect slot. When \<open>bcnt > D - 1\<close> it frees and
  zeroes exactly the entries at index \<open>\<ge> bcnt - (D - 1)\<close> and leaves the lower entries and
  the indirect slot as they are.

  The theorem gives the pointer table, the cached blocks and the calls after the
  truncation. It is stated for an inode with \<open>D\<close> pointers, a block size that is not 0, an
  indirect block with \<^verbatim>\<open>WUFS_BLOCKSIZE / 2\<close> entries, and a block count that fits the
  \<^verbatim>\<open>int\<close> loop counter.
\<close>

theorem C4_truncate:
  assumes len: "length (ini_data s) = WUFS_INODE_BPTRS"
    and bs: "0 < blocksize"
    and bcnt: "bcnt = (i_size s + blocksize - 1) div blocksize" "bcnt < 2 ^ 31"
    and p: "p = ini_data s ! (WUFS_INODE_BPTRS - 1)"
    and m: "length (b_data s (unat p)) = blocksize div 2"
  shows "i_size s \<le> bcnt * blocksize \<and> (\<forall>k. i_size s \<le> k * blocksize \<longrightarrow> bcnt \<le> k)
    \<and> (\<exists>s'. wufs_truncate blocksize s = Some s'
      \<and> (bcnt \<le> WUFS_INODE_BPTRS - 1 \<longrightarrow>
          ini_data s' = take bcnt (ini_data s) @ replicate (WUFS_INODE_BPTRS - bcnt) 0
          \<and> b_data s' =
              (if p = 0 then b_data s
               else (b_data s)(unat p := replicate (blocksize div 2) 0))
          \<and> calls s' = calls s @ [BlockTruncatePage]
              @ frees (drop bcnt (take (WUFS_INODE_BPTRS - 1) (ini_data s)))
              @ (if p = 0 then []
                 else [SbBread (uint p)] @ frees (b_data s (unat p))
                   @ [FreeBlock (uint p), Bforget (Indir (uint p))])
              @ [MarkInodeDirty])
      \<and> (WUFS_INODE_BPTRS - 1 < bcnt \<longrightarrow>
          ini_data s' = ini_data s
          \<and> b_data s' = (b_data s)(unat p :=
                take (bcnt - (WUFS_INODE_BPTRS - 1)) (b_data s (unat p))
                @ replicate (blocksize div 2 - (bcnt - (WUFS_INODE_BPTRS - 1))) 0)
          \<and> calls s' = calls s @ [BlockTruncatePage, SbBread (uint p)]
              @ frees (drop (bcnt - (WUFS_INODE_BPTRS - 1)) (b_data s (unat p)))
              @ [MarkBufferDirtyInode (Indir (uint p)), Brelse (Indir (uint p)),
                 MarkInodeDirty]))"
proof (intro conjI)
  show "i_size s \<le> bcnt * blocksize"
    unfolding bcnt(1) using bs by (rule blocks_ceiling(1))
  show "\<forall>k. i_size s \<le> k * blocksize \<longrightarrow> bcnt \<le> k"
    unfolding bcnt(1) using blocks_ceiling(2) [OF bs] by blast
  show "\<exists>s'. wufs_truncate blocksize s = Some s'
      \<and> (bcnt \<le> WUFS_INODE_BPTRS - 1 \<longrightarrow>
          ini_data s' = take bcnt (ini_data s) @ replicate (WUFS_INODE_BPTRS - bcnt) 0
          \<and> b_data s' =
              (if p = 0 then b_data s
               else (b_data s)(unat p := replicate (blocksize div 2) 0))
          \<and> calls s' = calls s @ [BlockTruncatePage]
              @ frees (drop bcnt (take (WUFS_INODE_BPTRS - 1) (ini_data s)))
              @ (if p = 0 then []
                 else [SbBread (uint p)] @ frees (b_data s (unat p))
                   @ [FreeBlock (uint p), Bforget (Indir (uint p))])
              @ [MarkInodeDirty])
      \<and> (WUFS_INODE_BPTRS - 1 < bcnt \<longrightarrow>
          ini_data s' = ini_data s
          \<and> b_data s' = (b_data s)(unat p :=
                take (bcnt - (WUFS_INODE_BPTRS - 1)) (b_data s (unat p))
                @ replicate (blocksize div 2 - (bcnt - (WUFS_INODE_BPTRS - 1))) 0)
          \<and> calls s' = calls s @ [BlockTruncatePage, SbBread (uint p)]
              @ frees (drop (bcnt - (WUFS_INODE_BPTRS - 1)) (b_data s (unat p)))
              @ [MarkBufferDirtyInode (Indir (uint p)), Brelse (Indir (uint p)),
                 MarkInodeDirty])"
  proof (cases "bcnt < WUFS_INODE_BPTRS")
    case fits: True
    show ?thesis
    proof (cases "p = 0")
      case True
      then have "ini_data s ! (WUFS_INODE_BPTRS - 1) = 0"
        using p by simp
      from truncate_fits_no_indirect [OF len bs bcnt(1) fits this] fits True
      show ?thesis
        by (simp add: WUFS_INODE_BPTRS_def)
    next
      case False
      from truncate_fits_with_indirect [OF len bs bcnt(1) fits p [symmetric] False m] fits False
      show ?thesis
        by (simp add: WUFS_INODE_BPTRS_def)
    qed
  next
    case False
    then have big: "WUFS_INODE_BPTRS \<le> bcnt"
      by simp
    from truncate_keeps_indirect [OF bs bcnt(1) big bcnt(2) p [symmetric] m refl] big
    show ?thesis
      by (simp add: WUFS_INODE_BPTRS_def)
  qed
qed

text \<open>
  Three truncations of a file with the direct blocks 10, 11 and 16, at a block size of
  8 bytes: with the indirect block 20 and the data blocks 21, 22 and 23 behind it, to
  9 blocks (entries 0 and 1 stay) and to one block (everything but block 10 goes); and,
  without an indirect block, to two blocks.
\<close>

theorem C4_truncate_witness:
  "(\<exists>s'. wufs_truncate 8
          (empty_inode\<lparr>i_size := 70, ini_data := [10, 11, 0, 0, 0, 0, 16, 20],
             b_data := (b_data empty_inode)(20 := [21, 22, 0, 23])\<rparr>) = Some s'
      \<and> ini_data s' = [10, 11, 0, 0, 0, 0, 16, 20]
      \<and> b_data s' 20 = [21, 22, 0, 0]
      \<and> calls s' = [BlockTruncatePage, SbBread 20, FreeBlock 23,
           MarkBufferDirtyInode (Indir 20), Brelse (Indir 20), MarkInodeDirty])
   \<and> (\<exists>s'. wufs_truncate 8
          (empty_inode\<lparr>i_size := 8, ini_data := [10, 11, 0, 0, 0, 0, 16, 20],
             b_data := (b_data empty_inode)(20 := [21, 22, 0, 23])\<rparr>) = Some s'
      \<and> ini_data s' = [10, 0, 0, 0, 0, 0, 0, 0]
      \<and> b_data s' 20 = [0, 0, 0, 0]
      \<and> calls s' = [BlockTruncatePage, FreeBlock 11, FreeBlock 16, SbBread 20,
           FreeBlock 21, FreeBlock 22, FreeBlock 23, FreeBlock 20, Bforget (Indir 20),
           MarkInodeDirty])
   \<and> (\<exists>s'. wufs_truncate 8
          (empty_inode\<lparr>i_size := 9, ini_data := [10, 11, 0, 0, 0, 0, 16, 0]\<rparr>) = Some s'
      \<and> ini_data s' = [10, 11, 0, 0, 0, 0, 0, 0]
      \<and> b_data s' = b_data empty_inode
      \<and> calls s' = [BlockTruncatePage, FreeBlock 16, MarkInodeDirty])"
proof (intro conjI)
  have r: "replicate 2 (0 :: block_t) = [0, 0]"
    by (simp add: numeral_2_eq_2)
  let ?s = "empty_inode\<lparr>i_size := 70, ini_data := [10, 11, 0, 0, 0, 0, 16, 20],
             b_data := (b_data empty_inode)(20 := [21, 22, 0, 23])\<rparr>"
  have h: "length (ini_data ?s) = WUFS_INODE_BPTRS" "0 < (8 :: nat)"
    "(9 :: nat) = (i_size ?s + 8 - 1) div 8" "(9 :: nat) < 2 ^ 31"
    "(20 :: block_t) = ini_data ?s ! (WUFS_INODE_BPTRS - 1)"
    "length (b_data ?s (unat (20 :: block_t))) = 8 div 2"
    by (simp_all add: empty_inode_def WUFS_INODE_BPTRS_def)
  from C4_truncate [OF h] obtain s' where
    "wufs_truncate 8 ?s = Some s'" "ini_data s' = ini_data ?s"
    "b_data s' = (b_data ?s)(unat (20 :: block_t) :=
       take (9 - (WUFS_INODE_BPTRS - 1)) (b_data ?s (unat (20 :: block_t)))
       @ replicate (8 div 2 - (9 - (WUFS_INODE_BPTRS - 1))) 0)"
    "calls s' = calls ?s @ [BlockTruncatePage, SbBread (uint (20 :: block_t))]
       @ frees (drop (9 - (WUFS_INODE_BPTRS - 1)) (b_data ?s (unat (20 :: block_t))))
       @ [MarkBufferDirtyInode (Indir (uint (20 :: block_t))),
          Brelse (Indir (uint (20 :: block_t))), MarkInodeDirty]"
    by (auto simp: WUFS_INODE_BPTRS_def)
  then show "\<exists>s'. wufs_truncate 8 ?s = Some s'
      \<and> ini_data s' = [10, 11, 0, 0, 0, 0, 16, 20]
      \<and> b_data s' 20 = [21, 22, 0, 0]
      \<and> calls s' = [BlockTruncatePage, SbBread 20, FreeBlock 23,
           MarkBufferDirtyInode (Indir 20), Brelse (Indir 20), MarkInodeDirty]"
    by (simp add: empty_inode_def WUFS_INODE_BPTRS_def r)
next
  have r: "replicate 7 (0 :: block_t) = [0, 0, 0, 0, 0, 0, 0]"
    "replicate 4 (0 :: block_t) = [0, 0, 0, 0]"
    by (simp_all add: eval_nat_numeral)
  let ?s = "empty_inode\<lparr>i_size := 8, ini_data := [10, 11, 0, 0, 0, 0, 16, 20],
             b_data := (b_data empty_inode)(20 := [21, 22, 0, 23])\<rparr>"
  have h: "length (ini_data ?s) = WUFS_INODE_BPTRS" "0 < (8 :: nat)"
    "(1 :: nat) = (i_size ?s + 8 - 1) div 8" "(1 :: nat) < 2 ^ 31"
    "(20 :: block_t) = ini_data ?s ! (WUFS_INODE_BPTRS - 1)"
    "length (b_data ?s (unat (20 :: block_t))) = 8 div 2"
    by (simp_all add: empty_inode_def WUFS_INODE_BPTRS_def)
  from C4_truncate [OF h] obtain s' where
    "wufs_truncate 8 ?s = Some s'"
    "ini_data s' = take 1 (ini_data ?s) @ replicate (WUFS_INODE_BPTRS - 1) 0"
    "b_data s' = (b_data ?s)(unat (20 :: block_t) := replicate (8 div 2) 0)"
    "calls s' = calls ?s @ [BlockTruncatePage]
       @ frees (drop 1 (take (WUFS_INODE_BPTRS - 1) (ini_data ?s)))
       @ ([SbBread (uint (20 :: block_t))] @ frees (b_data ?s (unat (20 :: block_t)))
          @ [FreeBlock (uint (20 :: block_t)), Bforget (Indir (uint (20 :: block_t)))])
       @ [MarkInodeDirty]"
    by (auto simp: WUFS_INODE_BPTRS_def)
  then show "\<exists>s'. wufs_truncate 8 ?s = Some s'
      \<and> ini_data s' = [10, 0, 0, 0, 0, 0, 0, 0]
      \<and> b_data s' 20 = [0, 0, 0, 0]
      \<and> calls s' = [BlockTruncatePage, FreeBlock 11, FreeBlock 16, SbBread 20,
           FreeBlock 21, FreeBlock 22, FreeBlock 23, FreeBlock 20, Bforget (Indir 20),
           MarkInodeDirty]"
    by (simp add: empty_inode_def WUFS_INODE_BPTRS_def r)
next
  have r: "replicate 6 (0 :: block_t) = [0, 0, 0, 0, 0, 0]"
    by (simp add: eval_nat_numeral)
  let ?s = "empty_inode\<lparr>i_size := 9, ini_data := [10, 11, 0, 0, 0, 0, 16, 0]\<rparr>"
  have h: "length (ini_data ?s) = WUFS_INODE_BPTRS" "0 < (8 :: nat)"
    "(2 :: nat) = (i_size ?s + 8 - 1) div 8" "(2 :: nat) < 2 ^ 31"
    "(0 :: block_t) = ini_data ?s ! (WUFS_INODE_BPTRS - 1)"
    "length (b_data ?s (unat (0 :: block_t))) = 8 div 2"
    by (simp_all add: empty_inode_def WUFS_INODE_BPTRS_def)
  from C4_truncate [OF h] obtain s' where
    "wufs_truncate 8 ?s = Some s'"
    "ini_data s' = take 2 (ini_data ?s) @ replicate (WUFS_INODE_BPTRS - 2) 0"
    "b_data s' = b_data ?s"
    "calls s' = calls ?s @ [BlockTruncatePage]
       @ frees (drop 2 (take (WUFS_INODE_BPTRS - 1) (ini_data ?s))) @ [MarkInodeDirty]"
    by (auto simp: WUFS_INODE_BPTRS_def)
  then show "\<exists>s'. wufs_truncate 8 ?s = Some s'
      \<and> ini_data s' = [10, 11, 0, 0, 0, 0, 0, 0]
      \<and> b_data s' = b_data empty_inode
      \<and> calls s' = [BlockTruncatePage, FreeBlock 16, MarkInodeDirty]"
    by (simp add: empty_inode_def WUFS_INODE_BPTRS_def r)
qed

subsection \<open>C5: direct and indirect range\<close>

text \<open>
  Claim C5: for a logical block \<open>b < D - 1\<close> in range, \<^verbatim>\<open>wufs_get_blk\<close> is the direct
  mapper on slot \<open>b\<close> of the table; for \<open>D - 1 \<le> b\<close> in range it is the indirect mapper on
  the indirect slot \<open>D - 1\<close> at offset \<open>b - (D - 1)\<close>. With \<open>D = 8\<close>, block 6 is the last
  direct block and block 7 is entry 0 of the indirect block.
\<close>

theorem C5_dispatch:
  assumes "block < sbi_max_fblks s"
  shows "WUFS_INODE_BPTRS - 1 = 7
    \<and> (block < WUFS_INODE_BPTRS - 1 \<longrightarrow>
         wufs_get_blk s block create = Some (retrieve_direct block create s))
    \<and> (WUFS_INODE_BPTRS - 1 \<le> block \<longrightarrow>
         wufs_get_blk s block create =
           retrieve_indirect (WUFS_INODE_BPTRS - 1) create (block - (WUFS_INODE_BPTRS - 1)) s)"
  using assms by (simp add: wufs_get_blk_def WUFS_INODE_BPTRS_def)

theorem C5_dispatch_witness:
  "wufs_get_blk empty_inode 6 True = Some (retrieve_direct 6 True empty_inode)
   \<and> wufs_get_blk empty_inode 7 True = retrieve_indirect 7 True 0 empty_inode"
proof -
  have r: "6 < sbi_max_fblks empty_inode" "7 < sbi_max_fblks empty_inode"
    by (simp_all add: empty_inode_def)
  show ?thesis
    using C5_dispatch [OF r(1), of True] C5_dispatch [OF r(2), of True]
    by (simp add: WUFS_INODE_BPTRS_def)
qed

subsection \<open>C6: only a block committed by this call is flagged as new\<close>

text \<open>
  Claim C6: \<^verbatim>\<open>wufs_get_blk\<close> sets the new flag of the caller's buffer head if and only if
  this call committed a new physical block; a block that is already mapped, in the direct
  or in the indirect range, is not flagged.

  \<^verbatim>\<open>retrieve_direct\<close> sets the flag inside the branch that commits.
  \<^verbatim>\<open>retrieve_indirect\<close> calls \<^verbatim>\<open>set_buffer_new(bh)\<close> after the whole conditional, on
  every path that returns 0: block 7 is already mapped to block 21, nothing is allocated,
  and the buffer head comes back flagged as new.
\<close>

theorem C6_mapped_indirect_block_flagged_new:
  "map_option (\<lambda>(r, s). (r, bh_new s, bh_blocknr s, ini_data s, b_data s 20, calls s))
     (wufs_get_blk
        (empty_inode\<lparr>ini_data := [0, 0, 0, 0, 0, 0, 0, 20],
                      b_data := (b_data empty_inode)(20 := [21, 0, 0, 0])\<rparr>)
        7 True)
   = Some (Inr (), True, Some 21, [0, 0, 0, 0, 0, 0, 0, 20], [21, 0, 0, 0],
       [SbBread 20, SetBufferNew Caller, MapBh Caller 21])"
  by code_simp

subsection \<open>C7: allocator exhaustion\<close>

text \<open>
  Claim C7: if the allocator reports exhaustion during \<^verbatim>\<open>wufs_get_blk\<close> with
  \<^verbatim>\<open>create = 1\<close> on an unallocated slot or entry, the call returns \<^verbatim>\<open>-ENOSPC\<close>, the slot or
  entry still holds 0, and no partial state is left behind.

  This holds when the first request of the call is the one that fails: for a direct slot
  that is 0, for an indirect slot that is 0, and for an entry that is 0 in an existing
  indirect block, the call returns \<^verbatim>\<open>-ENOSPC\<close> and the pointer table, the cached blocks, the
  inode's times and the caller's buffer head are as before. It does not hold when the
  allocator still has one block: the call commits it as the indirect block, marks the inode
  dirty, fails with \<^verbatim>\<open>-ENOSPC\<close> on the request for the data block and leaves the indirect
  slot set; the code has no path that takes a committed indirect block back. The third part
  of the theorem states that case for a call that no other thread interferes with.
\<close>

theorem C7_exhaustion:
  "(block < sbi_max_fblks s \<and> fst (wufs_new_block s) = 0
      \<and> (if block < WUFS_INODE_BPTRS - 1 then ini_data s ! block = 0
          else ini_data s ! (WUFS_INODE_BPTRS - 1) = 0) \<longrightarrow>
      (\<exists>s'. wufs_get_blk s block True = Some (Inl ENOSPC, s')
         \<and> ini_data s' = ini_data s \<and> b_data s' = b_data s
         \<and> i_mtime s' = i_mtime s \<and> i_ctime s' = i_ctime s
         \<and> bh_new s' = bh_new s \<and> bh_blocknr s' = bh_blocknr s
         \<and> calls s' = calls s @ [NewBlock 0]))
   \<and> (block < sbi_max_fblks s \<and> fst (wufs_new_block s) = 0
      \<and> WUFS_INODE_BPTRS - 1 \<le> block \<and> ini_data s ! (WUFS_INODE_BPTRS - 1) = p \<and> p \<noteq> 0
      \<and> block - (WUFS_INODE_BPTRS - 1) < length (b_data s (unat p))
      \<and> b_data s (unat p) ! (block - (WUFS_INODE_BPTRS - 1)) = 0 \<longrightarrow>
      (\<exists>s'. wufs_get_blk s block create = Some (Inl ENOSPC, s')
         \<and> ini_data s' = ini_data s \<and> b_data s' = b_data s
         \<and> i_mtime s' = i_mtime s \<and> i_ctime s' = i_ctime s
         \<and> bh_new s' = bh_new s \<and> bh_blocknr s' = bh_blocknr s
         \<and> calls s' = calls s @ [SbBread (uint p), NewBlock 0]))
   \<and> (block < sbi_max_fblks s \<and> env s = [] \<and> new_blocks s = [n] \<and> n \<noteq> 0
      \<and> WUFS_INODE_BPTRS - 1 \<le> block \<and> ini_data s ! (WUFS_INODE_BPTRS - 1) = 0
      \<and> WUFS_INODE_BPTRS - 1 < length (ini_data s)
      \<and> q = word_of_int n
      \<and> block - (WUFS_INODE_BPTRS - 1) < length (b_data s (unat q))
      \<and> b_data s (unat q) ! (block - (WUFS_INODE_BPTRS - 1)) = 0 \<longrightarrow>
      (\<exists>s'. wufs_get_blk s block True = Some (Inl ENOSPC, s')
         \<and> ini_data s' = (ini_data s)[WUFS_INODE_BPTRS - 1 := q] \<and> b_data s' = b_data s
         \<and> i_mtime s' = current_time_sec s \<and> i_ctime s' = current_time_sec s
         \<and> bh_new s' = bh_new s \<and> bh_blocknr s' = bh_blocknr s
         \<and> calls s' = calls s @ [NewBlock n, SbGetblk n, SetBufferNew (Indir n),
              MapBh (Indir n) n, MarkBufferDirtyInode (Indir n), Brelse (Indir n),
              MarkInodeDirty, SbBread (uint q), NewBlock 0]))"
proof (intro conjI impI)
  assume a: "block < sbi_max_fblks s \<and> fst (wufs_new_block s) = 0
      \<and> (if block < WUFS_INODE_BPTRS - 1 then ini_data s ! block = 0
          else ini_data s ! (WUFS_INODE_BPTRS - 1) = 0)"
  have r: "wufs_get_blk s block True = Some (Inl ENOSPC, snd (wufs_new_block s))"
    using a
    by (simp add: wufs_get_blk_def retrieve_direct.simps [of block True s]
        retrieve_indirect.simps [of _ True _ s] split: if_splits)
  have "calls (snd (wufs_new_block s)) = calls s @ [NewBlock 0]"
    using a by (auto simp: wufs_new_block_def log_def split: list.splits)
  then show "\<exists>s'. wufs_get_blk s block True = Some (Inl ENOSPC, s')
         \<and> ini_data s' = ini_data s \<and> b_data s' = b_data s
         \<and> i_mtime s' = i_mtime s \<and> i_ctime s' = i_ctime s
         \<and> bh_new s' = bh_new s \<and> bh_blocknr s' = bh_blocknr s
         \<and> calls s' = calls s @ [NewBlock 0]"
    using r by (simp add: wufs_new_block_def log_def split: list.splits)
next
  assume a: "block < sbi_max_fblks s \<and> fst (wufs_new_block s) = 0
      \<and> WUFS_INODE_BPTRS - 1 \<le> block \<and> ini_data s ! (WUFS_INODE_BPTRS - 1) = p \<and> p \<noteq> 0
      \<and> block - (WUFS_INODE_BPTRS - 1) < length (b_data s (unat p))
      \<and> b_data s (unat p) ! (block - (WUFS_INODE_BPTRS - 1)) = 0"
  let ?t = "log (SbBread (uint p)) s"
  have e: "fst (wufs_new_block ?t) = 0"
    using a by (auto simp: wufs_new_block_def log_def split: list.splits)
  have r: "wufs_get_blk s block create = Some (Inl ENOSPC, snd (wufs_new_block ?t))"
    using a e
    by (simp add: wufs_get_blk_def retrieve_indirect.simps [of _ create _ s] indirection_def
        start_indirection.simps [of _ _ ?t])
  show "\<exists>s'. wufs_get_blk s block create = Some (Inl ENOSPC, s')
         \<and> ini_data s' = ini_data s \<and> b_data s' = b_data s
         \<and> i_mtime s' = i_mtime s \<and> i_ctime s' = i_ctime s
         \<and> bh_new s' = bh_new s \<and> bh_blocknr s' = bh_blocknr s
         \<and> calls s' = calls s @ [SbBread (uint p), NewBlock 0]"
    using r e by (auto simp: wufs_new_block_def log_def split: list.splits)
next
  assume a: "block < sbi_max_fblks s \<and> env s = [] \<and> new_blocks s = [n] \<and> n \<noteq> 0
      \<and> WUFS_INODE_BPTRS - 1 \<le> block \<and> ini_data s ! (WUFS_INODE_BPTRS - 1) = 0
      \<and> WUFS_INODE_BPTRS - 1 < length (ini_data s)
      \<and> q = word_of_int n
      \<and> block - (WUFS_INODE_BPTRS - 1) < length (b_data s (unat q))
      \<and> b_data s (unat q) ! (block - (WUFS_INODE_BPTRS - 1)) = 0"
  show "\<exists>s'. wufs_get_blk s block True = Some (Inl ENOSPC, s')
         \<and> ini_data s' = (ini_data s)[WUFS_INODE_BPTRS - 1 := q] \<and> b_data s' = b_data s
         \<and> i_mtime s' = current_time_sec s \<and> i_ctime s' = current_time_sec s
         \<and> bh_new s' = bh_new s \<and> bh_blocknr s' = bh_blocknr s
         \<and> calls s' = calls s @ [NewBlock n, SbGetblk n, SetBufferNew (Indir n),
              MapBh (Indir n) n, MarkBufferDirtyInode (Indir n), Brelse (Indir n),
              MarkInodeDirty, SbBread (uint q), NewBlock 0]"
    using a
    by (auto simp: wufs_get_blk_def retrieve_indirect.simps [of _ True _ s] indirection_def
        start_indirection.simps collaborator_defs Let_def interfere_def)
qed

theorem C7_exhaustion_witness:
  "(\<exists>s'. wufs_get_blk empty_inode 3 True = Some (Inl ENOSPC, s')
      \<and> ini_data s' = ini_data empty_inode \<and> b_data s' = b_data empty_inode
      \<and> calls s' = [NewBlock 0])
   \<and> (\<exists>s'. wufs_get_blk (empty_inode\<lparr>ini_data := [0, 0, 0, 0, 0, 0, 0, 20]\<rparr>) 7 True
          = Some (Inl ENOSPC, s')
      \<and> ini_data s' = [0, 0, 0, 0, 0, 0, 0, 20] \<and> b_data s' = b_data empty_inode
      \<and> calls s' = [SbBread 20, NewBlock 0])
   \<and> (\<exists>s'. wufs_get_blk (empty_inode\<lparr>new_blocks := [20]\<rparr>) 7 True = Some (Inl ENOSPC, s')
      \<and> ini_data s' = [0, 0, 0, 0, 0, 0, 0, 20] \<and> b_data s' = b_data empty_inode)"
proof (intro conjI)
  show "\<exists>s'. wufs_get_blk empty_inode 3 True = Some (Inl ENOSPC, s')
      \<and> ini_data s' = ini_data empty_inode \<and> b_data s' = b_data empty_inode
      \<and> calls s' = [NewBlock 0]"
    using C7_exhaustion [where s = empty_inode and block = 3]
    by (auto simp: empty_inode_def WUFS_INODE_BPTRS_def wufs_new_block_def)
next
  let ?s = "empty_inode\<lparr>ini_data := [0, 0, 0, 0, 0, 0, 0, 20]\<rparr>"
  show "\<exists>s'. wufs_get_blk ?s 7 True = Some (Inl ENOSPC, s')
      \<and> ini_data s' = [0, 0, 0, 0, 0, 0, 0, 20] \<and> b_data s' = b_data empty_inode
      \<and> calls s' = [SbBread 20, NewBlock 0]"
    using C7_exhaustion [where s = ?s and block = 7 and p = 20 and create = True]
    by (auto simp: empty_inode_def WUFS_INODE_BPTRS_def wufs_new_block_def)
next
  let ?s = "empty_inode\<lparr>new_blocks := [20]\<rparr>"
  show "\<exists>s'. wufs_get_blk ?s 7 True = Some (Inl ENOSPC, s')
      \<and> ini_data s' = [0, 0, 0, 0, 0, 0, 0, 20] \<and> b_data s' = b_data empty_inode"
    using C7_exhaustion [where s = ?s and block = 7 and n = 20 and q = 20]
    by (auto simp: empty_inode_def WUFS_INODE_BPTRS_def)
qed

text \<open>
  The claim fails where it says that nothing is left behind: with one block left in the
  allocator the call for block 7 returns \<^verbatim>\<open>-ENOSPC\<close>, and afterwards the indirect slot
  holds 20 and the inode's modification time is the current time.
\<close>

theorem C7_counterexample:
  "map_option (\<lambda>(r, s). (r, ini_data s, i_mtime s, calls s))
     (wufs_get_blk (empty_inode\<lparr>new_blocks := [20]\<rparr>) 7 True)
   = Some (Inl ENOSPC, [0, 0, 0, 0, 0, 0, 0, 20], 1,
       [NewBlock 20, SbGetblk 20, SetBufferNew (Indir 20), MapBh (Indir 20) 20,
        MarkBufferDirtyInode (Indir 20), Brelse (Indir 20), MarkInodeDirty,
        SbBread 20, NewBlock 0])"
  by code_simp

subsection \<open>C8: the error for a block out of range\<close>

text \<open>
  Claim C8: for every logical block outside \<open>[0, maxFileBlocks)\<close> the call fails with an
  out-of-range error, which only the range check of \<^verbatim>\<open>wufs_get_blk\<close> produces and which
  differs from the error returned for an in-range hole with \<^verbatim>\<open>create = 0\<close>.

  The code returns \<^verbatim>\<open>-EIO\<close> in both cases: the range check and the two tests of
  \<^verbatim>\<open>create\<close> use the same error code. What holds: a block at or beyond
  \<^verbatim>\<open>sbi_max_fblks\<close> gives \<^verbatim>\<open>-EIO\<close> and changes nothing; so does an in-range block with
  \<^verbatim>\<open>create = 0\<close> whose direct slot, or whose indirect slot, is 0; and whenever the result is
  \<^verbatim>\<open>-EIO\<close>, nothing has changed and either the block is out of range or \<^verbatim>\<open>create\<close> is 0.
\<close>

theorem C8_EIO:
  "(sbi_max_fblks s \<le> block \<longrightarrow> wufs_get_blk s block create = Some (Inl EIO, s))
   \<and> (block < sbi_max_fblks s \<and> block < WUFS_INODE_BPTRS - 1 \<and> ini_data s ! block = 0 \<longrightarrow>
        wufs_get_blk s block False = Some (Inl EIO, s))
   \<and> (block < sbi_max_fblks s \<and> WUFS_INODE_BPTRS - 1 \<le> block
        \<and> ini_data s ! (WUFS_INODE_BPTRS - 1) = 0 \<longrightarrow>
        wufs_get_blk s block False = Some (Inl EIO, s))
   \<and> (wufs_get_blk s block create = Some (Inl EIO, s') \<longrightarrow>
        s' = s \<and> (sbi_max_fblks s \<le> block \<or> \<not> create))"
proof (intro conjI impI)
  assume "sbi_max_fblks s \<le> block"
  then show "wufs_get_blk s block create = Some (Inl EIO, s)"
    by (simp add: wufs_get_blk_def)
next
  assume "block < sbi_max_fblks s \<and> block < WUFS_INODE_BPTRS - 1 \<and> ini_data s ! block = 0"
  then show "wufs_get_blk s block False = Some (Inl EIO, s)"
    by (simp add: wufs_get_blk_def retrieve_direct.simps [of block False s])
next
  assume "block < sbi_max_fblks s \<and> WUFS_INODE_BPTRS - 1 \<le> block
    \<and> ini_data s ! (WUFS_INODE_BPTRS - 1) = 0"
  then show "wufs_get_blk s block False = Some (Inl EIO, s)"
    by (simp add: wufs_get_blk_def retrieve_indirect.simps [of _ False _ s])
next
  assume a: "wufs_get_blk s block create = Some (Inl EIO, s')"
  show "s' = s"
    using a retrieve_direct_EIO [of block create s s']
      retrieve_indirect_EIO [of "WUFS_INODE_BPTRS - 1" create "block - (WUFS_INODE_BPTRS - 1)" s s']
    by (auto simp: wufs_get_blk_def split: if_splits)
  show "sbi_max_fblks s \<le> block \<or> \<not> create"
    using a retrieve_direct_EIO [of block create s s']
      retrieve_indirect_EIO [of "WUFS_INODE_BPTRS - 1" create "block - (WUFS_INODE_BPTRS - 1)" s s']
    by (auto simp: wufs_get_blk_def split: if_splits)
qed

theorem C8_EIO_witness:
  "wufs_get_blk empty_inode 11 True = Some (Inl EIO, empty_inode)
   \<and> wufs_get_blk empty_inode 3 False = Some (Inl EIO, empty_inode)
   \<and> wufs_get_blk empty_inode 8 False = Some (Inl EIO, empty_inode)
   \<and> sbi_max_fblks empty_inode \<le> 11"
proof -
  have out: "wufs_get_blk empty_inode 11 True = Some (Inl EIO, empty_inode)"
    using C8_EIO [of empty_inode 11 True] by (simp add: empty_inode_def)
  have direct: "wufs_get_blk empty_inode 3 False = Some (Inl EIO, empty_inode)"
    using C8_EIO [of empty_inode 3] by (simp add: empty_inode_def WUFS_INODE_BPTRS_def)
  have indirect: "wufs_get_blk empty_inode 8 False = Some (Inl EIO, empty_inode)"
    using C8_EIO [of empty_inode 8] by (simp add: empty_inode_def WUFS_INODE_BPTRS_def)
  have "sbi_max_fblks empty_inode \<le> 11"
    using C8_EIO [of empty_inode 11 True empty_inode] out by blast
  with out direct indirect show ?thesis
    by blast
qed

text \<open>
  The claim fails where it says that the two errors differ: block 11 is out of range and
  block 3 is an in-range hole, and both calls return the same error.
\<close>

theorem C8_counterexample:
  "map_option fst (wufs_get_blk empty_inode 11 False) = Some (Inl EIO)
   \<and> map_option fst (wufs_get_blk empty_inode 3 False) = Some (Inl EIO)
   \<and> 11 \<ge> sbi_max_fblks empty_inode \<and> 3 < sbi_max_fblks empty_inode"
  by code_simp

subsection \<open>C9: an allocation touches the inode\<close>

text \<open>
  Claim C9: on every allocation that \<^verbatim>\<open>wufs_get_blk\<close> performs, whether it commits a direct
  slot, the indirect slot or an entry of the indirect block, the inode's modification and
  change times are updated and the inode is marked dirty before the block is reported as
  new.

  The code does so for a direct slot and for the indirect slot. For an entry of the
  indirect block it marks the buffer of the indirect block dirty and leaves the inode alone.
  The theorem states the three cases for a call that no other thread interferes with:
  \<^item> a direct slot is committed: the times are the current time, and the call marks the
    inode dirty before it sets the new flag;
  \<^item> the indirect slot is committed: the times are the current time, and the inode is
    marked dirty before anything is done for the caller's buffer head;
  \<^item> an entry of an existing indirect block is committed: the times are unchanged, and
    the calls are those listed, with none that marks the inode dirty.
\<close>

theorem C9_timestamps:
  "(env s = [] \<and> block < sbi_max_fblks s \<and> block < WUFS_INODE_BPTRS - 1
      \<and> block < length (ini_data s) \<and> ini_data s ! block = 0
      \<and> new_blocks s = n # ns \<and> n \<noteq> 0 \<longrightarrow>
      (\<exists>s'. wufs_get_blk s block True = Some (Inr (), s')
         \<and> ini_data s' = (ini_data s)[block := word_of_int n]
         \<and> i_mtime s' = current_time_sec s \<and> i_ctime s' = current_time_sec s
         \<and> bh_new s'
         \<and> calls s' = calls s @ [NewBlock n, MarkInodeDirty, SetBufferNew Caller,
              MapBh Caller (uint (word_of_int n :: block_t))]))
   \<and> (env s = [] \<and> block < sbi_max_fblks s \<and> WUFS_INODE_BPTRS - 1 \<le> block
      \<and> ini_data s ! (WUFS_INODE_BPTRS - 1) = 0
      \<and> new_blocks s = n # ns \<and> n \<noteq> 0
      \<and> wufs_get_blk s block True = Some (r, s') \<longrightarrow>
      i_mtime s' = current_time_sec s \<and> i_ctime s' = current_time_sec s
      \<and> (\<exists>post. calls s' = calls s @ [NewBlock n, SbGetblk n, SetBufferNew (Indir n),
              MapBh (Indir n) n, MarkBufferDirtyInode (Indir n), Brelse (Indir n),
              MarkInodeDirty] @ post))
   \<and> (env s = [] \<and> block < sbi_max_fblks s \<and> WUFS_INODE_BPTRS - 1 \<le> block
      \<and> ini_data s ! (WUFS_INODE_BPTRS - 1) = p \<and> p \<noteq> 0
      \<and> block - (WUFS_INODE_BPTRS - 1) < length (b_data s (unat p))
      \<and> b_data s (unat p) ! (block - (WUFS_INODE_BPTRS - 1)) = 0
      \<and> new_blocks s = n # ns \<and> n \<noteq> 0 \<longrightarrow>
      (\<exists>s'. wufs_get_blk s block create = Some (Inr (), s')
         \<and> b_data s' = (b_data s)(unat p :=
              (b_data s (unat p))[block - (WUFS_INODE_BPTRS - 1) := word_of_int n])
         \<and> i_mtime s' = i_mtime s \<and> i_ctime s' = i_ctime s
         \<and> bh_new s'
         \<and> calls s' = calls s @ [SbBread (uint p), NewBlock n,
              MarkBufferDirtyInode (Indir (uint p)), Brelse (Indir (uint p)),
              SetBufferNew Caller, MapBh Caller n]))"
proof (intro conjI impI)
  assume "env s = [] \<and> block < sbi_max_fblks s \<and> block < WUFS_INODE_BPTRS - 1
      \<and> block < length (ini_data s) \<and> ini_data s ! block = 0
      \<and> new_blocks s = n # ns \<and> n \<noteq> 0"
  then show "\<exists>s'. wufs_get_blk s block True = Some (Inr (), s')
         \<and> ini_data s' = (ini_data s)[block := word_of_int n]
         \<and> i_mtime s' = current_time_sec s \<and> i_ctime s' = current_time_sec s
         \<and> bh_new s'
         \<and> calls s' = calls s @ [NewBlock n, MarkInodeDirty, SetBufferNew Caller,
              MapBh Caller (uint (word_of_int n :: block_t))]"
    by (auto simp: wufs_get_blk_def retrieve_direct.simps [of block True s]
        collaborator_defs Let_def interfere_def)
next
  assume a: "env s = [] \<and> block < sbi_max_fblks s \<and> WUFS_INODE_BPTRS - 1 \<le> block
      \<and> ini_data s ! (WUFS_INODE_BPTRS - 1) = 0
      \<and> new_blocks s = n # ns \<and> n \<noteq> 0
      \<and> wufs_get_blk s block True = Some (r, s')"
  define t where "t = touch_inode (log (Brelse (Indir n)) (log (MarkBufferDirtyInode (Indir n))
    ((log (MapBh (Indir n) n) (log (SetBufferNew (Indir n)) (log (SbGetblk n)
      (snd (wufs_new_block s)))))\<lparr>ini_data := (ini_data s)[WUFS_INODE_BPTRS - 1 := word_of_int n]\<rparr>)))"
  have r: "indirection (WUFS_INODE_BPTRS - 1) (block - (WUFS_INODE_BPTRS - 1)) t = Some (r, s')"
    using a
    by (auto simp: wufs_get_blk_def retrieve_indirect.simps [of _ True _ s] t_def
        wufs_new_block_def Let_def interfere_def)
  have t: "i_mtime t = current_time_sec s" "i_ctime t = current_time_sec s"
    "calls t = calls s @ [NewBlock n, SbGetblk n, SetBufferNew (Indir n),
              MapBh (Indir n) n, MarkBufferDirtyInode (Indir n), Brelse (Indir n),
              MarkInodeDirty]"
    using a by (auto simp: t_def collaborator_defs)
  obtain post where "i_mtime s' = i_mtime t" "i_ctime s' = i_ctime t"
    "calls s' = calls t @ SbBread (uint (ini_data t ! (WUFS_INODE_BPTRS - 1))) # post"
    using start_indirection_inode [OF r [unfolded indirection_def Let_def]]
    by (auto simp: log_def)
  then show "i_mtime s' = current_time_sec s" "i_ctime s' = current_time_sec s"
    "\<exists>post. calls s' = calls s @ [NewBlock n, SbGetblk n, SetBufferNew (Indir n),
              MapBh (Indir n) n, MarkBufferDirtyInode (Indir n), Brelse (Indir n),
              MarkInodeDirty] @ post"
    using t by auto
next
  assume "env s = [] \<and> block < sbi_max_fblks s \<and> WUFS_INODE_BPTRS - 1 \<le> block
      \<and> ini_data s ! (WUFS_INODE_BPTRS - 1) = p \<and> p \<noteq> 0
      \<and> block - (WUFS_INODE_BPTRS - 1) < length (b_data s (unat p))
      \<and> b_data s (unat p) ! (block - (WUFS_INODE_BPTRS - 1)) = 0
      \<and> new_blocks s = n # ns \<and> n \<noteq> 0"
  then show "\<exists>s'. wufs_get_blk s block create = Some (Inr (), s')
         \<and> b_data s' = (b_data s)(unat p :=
              (b_data s (unat p))[block - (WUFS_INODE_BPTRS - 1) := word_of_int n])
         \<and> i_mtime s' = i_mtime s \<and> i_ctime s' = i_ctime s
         \<and> bh_new s'
         \<and> calls s' = calls s @ [SbBread (uint p), NewBlock n,
              MarkBufferDirtyInode (Indir (uint p)), Brelse (Indir (uint p)),
              SetBufferNew Caller, MapBh Caller n]"
    by (auto simp: wufs_get_blk_def retrieve_indirect.simps [of _ create _ s] indirection_def
        start_indirection.simps collaborator_defs Let_def interfere_def)
qed

theorem C9_timestamps_witness:
  "(\<exists>s'. wufs_get_blk (empty_inode\<lparr>new_blocks := [10]\<rparr>) 3 True = Some (Inr (), s')
      \<and> i_mtime s' = 1 \<and> i_ctime s' = 1
      \<and> calls s' = [NewBlock 10, MarkInodeDirty, SetBufferNew Caller, MapBh Caller 10])
   \<and> (\<exists>s'. wufs_get_blk
            (empty_inode\<lparr>ini_data := [0, 0, 0, 0, 0, 0, 0, 20], new_blocks := [21]\<rparr>) 7 True
          = Some (Inr (), s')
      \<and> i_mtime s' = 0 \<and> i_ctime s' = 0
      \<and> calls s' = [SbBread 20, NewBlock 21, MarkBufferDirtyInode (Indir 20),
           Brelse (Indir 20), SetBufferNew Caller, MapBh Caller 21])
   \<and> (\<exists>r s' post. wufs_get_blk (empty_inode\<lparr>new_blocks := [20, 21]\<rparr>) 7 True = Some (r, s')
      \<and> i_mtime s' = 1 \<and> i_ctime s' = 1
      \<and> calls s' = [NewBlock 20, SbGetblk 20, SetBufferNew (Indir 20), MapBh (Indir 20) 20,
           MarkBufferDirtyInode (Indir 20), Brelse (Indir 20), MarkInodeDirty] @ post)"
proof (intro conjI)
  let ?s = "empty_inode\<lparr>new_blocks := [10]\<rparr>"
  show "\<exists>s'. wufs_get_blk ?s 3 True = Some (Inr (), s')
      \<and> i_mtime s' = 1 \<and> i_ctime s' = 1
      \<and> calls s' = [NewBlock 10, MarkInodeDirty, SetBufferNew Caller, MapBh Caller 10]"
    using C9_timestamps [where s = ?s and block = 3 and n = 10 and ns = "[]"]
    by (auto simp: empty_inode_def WUFS_INODE_BPTRS_def)
next
  let ?s = "empty_inode\<lparr>ini_data := [0, 0, 0, 0, 0, 0, 0, 20], new_blocks := [21]\<rparr>"
  show "\<exists>s'. wufs_get_blk ?s 7 True = Some (Inr (), s')
      \<and> i_mtime s' = 0 \<and> i_ctime s' = 0
      \<and> calls s' = [SbBread 20, NewBlock 21, MarkBufferDirtyInode (Indir 20),
           Brelse (Indir 20), SetBufferNew Caller, MapBh Caller 21]"
    using C9_timestamps [where s = ?s and block = 7 and p = 20 and n = 21 and ns = "[]"
        and create = True]
    by (auto simp: empty_inode_def WUFS_INODE_BPTRS_def)
next
  let ?s = "empty_inode\<lparr>new_blocks := [20, 21]\<rparr>"
  have "map_option fst (wufs_get_blk ?s 7 True) = Some (Inr ())"
    by code_simp
  then obtain r s' where r: "wufs_get_blk ?s 7 True = Some (r, s')"
    by (cases "wufs_get_blk ?s 7 True") auto
  show "\<exists>r s' post. wufs_get_blk ?s 7 True = Some (r, s')
      \<and> i_mtime s' = 1 \<and> i_ctime s' = 1
      \<and> calls s' = [NewBlock 20, SbGetblk 20, SetBufferNew (Indir 20), MapBh (Indir 20) 20,
           MarkBufferDirtyInode (Indir 20), Brelse (Indir 20), MarkInodeDirty] @ post"
    using C9_timestamps [where s = ?s and block = 7 and n = 20 and ns = "[21]"
        and r = r and s' = s'] r
    by (auto simp: empty_inode_def WUFS_INODE_BPTRS_def)
qed

text \<open>
  The claim fails for an entry of the indirect block: the call for block 7 commits block 21
  into entry 0 of the indirect block 20 and flags the result as new, while the inode's
  times stay 0 at the current time 1 and the inode is not marked dirty.
\<close>

theorem C9_counterexample:
  "map_option
     (\<lambda>(r, s). (r, b_data s 20, bh_new s, i_mtime s, i_ctime s, current_time_sec s,
        MarkInodeDirty \<in> set (calls s)))
     (wufs_get_blk
        (empty_inode\<lparr>ini_data := [0, 0, 0, 0, 0, 0, 0, 20], new_blocks := [21]\<rparr>) 7 True)
   = Some (Inr (), [21, 0, 0, 0], True, 0, 0, 1, False)"
  by code_simp

subsection \<open>C10: truncation reads the indirect block without a check\<close>

text \<open>
  Claim C10: \<^verbatim>\<open>wufs_truncate\<close> tests that the indirect slot is not 0 before it touches the
  indirect block only when \<open>bcnt \<le> D - 1\<close>. When \<open>bcnt > D - 1\<close> it reads, rewrites and
  marks dirty the block that the indirect slot names, whatever the slot holds: for a sparse
  file that needs more than \<open>D - 1\<close> blocks and has no indirect block, that is block 0.

  The theorem states both branches, with \<open>p\<close> the content of the indirect slot. In the
  first, with \<open>p = 0\<close>, no block is read and no cached block changes. In the second the
  code reads block \<open>p\<close>, frees every non-zero entry from \<open>bcnt - (D - 1)\<close> on, zeroes these
  entries and marks the buffer dirty; nothing in the hypotheses says that \<open>p\<close> is not 0.
\<close>

theorem C10_truncate_reads_indirect_unchecked:
  assumes bs: "0 < blocksize"
    and bcnt: "bcnt = (i_size s + blocksize - 1) div blocksize" "bcnt < 2 ^ 31"
    and p: "p = ini_data s ! (WUFS_INODE_BPTRS - 1)"
    and m: "length (b_data s (unat p)) = blocksize div 2"
  shows "(bcnt \<le> WUFS_INODE_BPTRS - 1 \<and> length (ini_data s) = WUFS_INODE_BPTRS \<and> p = 0 \<longrightarrow>
      (\<exists>s' post. wufs_truncate blocksize s = Some s' \<and> b_data s' = b_data s
         \<and> calls s' = calls s @ post \<and> (\<forall>n. SbBread n \<notin> set post)))
    \<and> (WUFS_INODE_BPTRS - 1 < bcnt \<longrightarrow>
      (\<exists>s' post. wufs_truncate blocksize s = Some s'
         \<and> ini_data s' = ini_data s
         \<and> calls s' = calls s @ post
         \<and> SbBread (uint p) \<in> set post \<and> MarkBufferDirtyInode (Indir (uint p)) \<in> set post
         \<and> b_data s' (unat p) =
              take (bcnt - (WUFS_INODE_BPTRS - 1)) (b_data s (unat p))
              @ replicate (blocksize div 2 - (bcnt - (WUFS_INODE_BPTRS - 1))) 0
         \<and> (\<forall>x \<in> set (drop (bcnt - (WUFS_INODE_BPTRS - 1)) (b_data s (unat p))).
               x \<noteq> 0 \<longrightarrow> FreeBlock (uint x) \<in> set post)))"
proof (intro conjI impI)
  assume a: "bcnt \<le> WUFS_INODE_BPTRS - 1 \<and> length (ini_data s) = WUFS_INODE_BPTRS \<and> p = 0"
  then have fits: "bcnt < WUFS_INODE_BPTRS" and z: "ini_data s ! (WUFS_INODE_BPTRS - 1) = 0"
    and len: "length (ini_data s) = WUFS_INODE_BPTRS"
    using p by (simp_all add: WUFS_INODE_BPTRS_def)
  let ?post = "[BlockTruncatePage]
    @ frees (drop bcnt (take (WUFS_INODE_BPTRS - 1) (ini_data s))) @ [MarkInodeDirty]"
  have "\<forall>n. SbBread n \<notin> set ?post"
    by auto
  moreover obtain s' where "wufs_truncate blocksize s = Some s'" "b_data s' = b_data s"
    "calls s' = calls s @ ?post"
    using truncate_fits_no_indirect [OF len bs bcnt(1) fits z] by simp
  ultimately show "\<exists>s' post. wufs_truncate blocksize s = Some s' \<and> b_data s' = b_data s
         \<and> calls s' = calls s @ post \<and> (\<forall>n. SbBread n \<notin> set post)"
    by blast
next
  assume "WUFS_INODE_BPTRS - 1 < bcnt"
  then have big: "WUFS_INODE_BPTRS \<le> bcnt"
    by simp
  let ?k = "bcnt - (WUFS_INODE_BPTRS - 1)"
  let ?post = "[BlockTruncatePage, SbBread (uint p)]
    @ frees (drop ?k (b_data s (unat p)))
    @ [MarkBufferDirtyInode (Indir (uint p)), Brelse (Indir (uint p)), MarkInodeDirty]"
  have f: "\<forall>x \<in> set (drop ?k (b_data s (unat p))). x \<noteq> 0 \<longrightarrow> FreeBlock (uint x) \<in> set ?post"
    by auto
  have g: "SbBread (uint p) \<in> set ?post" "MarkBufferDirtyInode (Indir (uint p)) \<in> set ?post"
    by simp_all
  obtain s' where "wufs_truncate blocksize s = Some s'" "ini_data s' = ini_data s"
    "calls s' = calls s @ ?post"
    "b_data s' (unat p) = take ?k (b_data s (unat p)) @ replicate (blocksize div 2 - ?k) 0"
    using truncate_keeps_indirect [OF bs bcnt(1) big bcnt(2) p [symmetric] m refl] by simp
  with f g show "\<exists>s' post. wufs_truncate blocksize s = Some s'
         \<and> ini_data s' = ini_data s
         \<and> calls s' = calls s @ post
         \<and> SbBread (uint p) \<in> set post \<and> MarkBufferDirtyInode (Indir (uint p)) \<in> set post
         \<and> b_data s' (unat p) = take ?k (b_data s (unat p)) @ replicate (blocksize div 2 - ?k) 0
         \<and> (\<forall>x \<in> set (drop ?k (b_data s (unat p))).
               x \<noteq> 0 \<longrightarrow> FreeBlock (uint x) \<in> set post)"
    by blast
qed

text \<open>
  A sparse file of 64 bytes (8 blocks of 8 bytes) without any block: the indirect slot is
  0, block 0 of the device holds 5, 6, 7, 8. The truncation reads block 0, frees the blocks
  6, 7 and 8 and zeroes their entries. A file of 9 bytes with an empty indirect slot is
  left without any read.
\<close>

theorem C10_truncate_reads_indirect_unchecked_witness:
  "(\<exists>s' post. wufs_truncate 8
          (empty_inode\<lparr>i_size := 9, ini_data := [10, 11, 0, 0, 0, 0, 16, 0]\<rparr>) = Some s'
      \<and> b_data s' = b_data empty_inode \<and> calls s' = post \<and> SbBread 0 \<notin> set post)
   \<and> (\<exists>s' post. wufs_truncate 8
          (empty_inode\<lparr>i_size := 64, b_data := (b_data empty_inode)(0 := [5, 6, 7, 8])\<rparr>)
          = Some s'
      \<and> ini_data s' = [0, 0, 0, 0, 0, 0, 0, 0]
      \<and> calls s' = post \<and> SbBread 0 \<in> set post
      \<and> MarkBufferDirtyInode (Indir 0) \<in> set post
      \<and> b_data s' 0 = [5, 0, 0, 0]
      \<and> FreeBlock 6 \<in> set post)"
proof (intro conjI)
  let ?s = "empty_inode\<lparr>i_size := 9, ini_data := [10, 11, 0, 0, 0, 0, 16, 0]\<rparr>"
  have h: "0 < (8 :: nat)" "(2 :: nat) = (i_size ?s + 8 - 1) div 8" "(2 :: nat) < 2 ^ 31"
    "(0 :: block_t) = ini_data ?s ! (WUFS_INODE_BPTRS - 1)"
    "length (b_data ?s (unat (0 :: block_t))) = 8 div 2"
    by (simp_all add: empty_inode_def WUFS_INODE_BPTRS_def)
  have "2 \<le> WUFS_INODE_BPTRS - 1 \<and> length (ini_data ?s) = WUFS_INODE_BPTRS \<and> (0 :: block_t) = 0"
    by (simp add: empty_inode_def WUFS_INODE_BPTRS_def)
  with C10_truncate_reads_indirect_unchecked [OF h] obtain s' post where
    "wufs_truncate 8 ?s = Some s'" "b_data s' = b_data ?s" "calls s' = calls ?s @ post"
    "\<forall>n. SbBread n \<notin> set post"
    by blast
  then show "\<exists>s' post. wufs_truncate 8 ?s = Some s'
      \<and> b_data s' = b_data empty_inode \<and> calls s' = post \<and> SbBread 0 \<notin> set post"
    by (simp add: empty_inode_def)
next
  let ?s = "empty_inode\<lparr>i_size := 64, b_data := (b_data empty_inode)(0 := [5, 6, 7, 8])\<rparr>"
  have r: "replicate 3 (0 :: block_t) = [0, 0, 0]"
    by (simp add: eval_nat_numeral)
  have h: "0 < (8 :: nat)" "(8 :: nat) = (i_size ?s + 8 - 1) div 8" "(8 :: nat) < 2 ^ 31"
    "(0 :: block_t) = ini_data ?s ! (WUFS_INODE_BPTRS - 1)"
    "length (b_data ?s (unat (0 :: block_t))) = 8 div 2"
    by (simp_all add: empty_inode_def WUFS_INODE_BPTRS_def)
  have "WUFS_INODE_BPTRS - 1 < 8"
    by (simp add: WUFS_INODE_BPTRS_def)
  with C10_truncate_reads_indirect_unchecked [OF h] obtain s' post where s':
    "wufs_truncate 8 ?s = Some s'" "ini_data s' = ini_data ?s" "calls s' = calls ?s @ post"
    "SbBread (uint (0 :: block_t)) \<in> set post"
    "MarkBufferDirtyInode (Indir (uint (0 :: block_t))) \<in> set post"
    "b_data s' (unat (0 :: block_t)) =
       take (8 - (WUFS_INODE_BPTRS - 1)) (b_data ?s (unat (0 :: block_t)))
       @ replicate (8 div 2 - (8 - (WUFS_INODE_BPTRS - 1))) 0"
    "\<forall>x \<in> set (drop (8 - (WUFS_INODE_BPTRS - 1)) (b_data ?s (unat (0 :: block_t)))).
       x \<noteq> 0 \<longrightarrow> FreeBlock (uint x) \<in> set post"
    by blast
  have "(6 :: block_t) \<in> set (drop (8 - (WUFS_INODE_BPTRS - 1)) (b_data ?s (unat (0 :: block_t))))"
    by (simp add: empty_inode_def WUFS_INODE_BPTRS_def)
  with s'(7) have "FreeBlock (uint (6 :: block_t)) \<in> set post"
    by auto
  with s' show "\<exists>s' post. wufs_truncate 8 ?s = Some s'
      \<and> ini_data s' = [0, 0, 0, 0, 0, 0, 0, 0]
      \<and> calls s' = post \<and> SbBread 0 \<in> set post
      \<and> MarkBufferDirtyInode (Indir 0) \<in> set post
      \<and> b_data s' 0 = [5, 0, 0, 0]
      \<and> FreeBlock 6 \<in> set post"
    by (simp add: empty_inode_def WUFS_INODE_BPTRS_def r)
qed

end
